theory Spec2Isabelle
  imports Complex_Main "HOL-Library.AList"
begin

text \<open>
  A model of the TouchID library: its event emitter (\<^verbatim>\<open>utils/event-emitter.ts\<close>), the
  authentication cache of its native module (\<^verbatim>\<open>native/touchid.mm\<close>) and its service
  (\<^verbatim>\<open>touchid.ts\<close>). The definitions come first, function by function as the source has them;
  the lemmas and the claims about the code follow.
\<close>

section \<open>Thrown values, outcomes and control flow\<close>

text \<open>
  A JavaScript \<^verbatim>\<open>throw\<close> (or a rejected promise) carries any value. The service only ever
  asks one question of a caught value, \<^verbatim>\<open>error instanceof Error\<close>, and then reads
  \<^verbatim>\<open>error.message\<close>. A thrown value is therefore an \<^verbatim>\<open>Error\<close> object with its message, or
  some other value (a string, for example), kept as text.
\<close>

datatype thrown = JsError string | JsOther string

datatype 'a outcome = Returns 'a | Throws thrown

text \<open>
  A statement runs on a state and either returns or throws; sequencing stops at the first
  throw, \<^verbatim>\<open>try { body } catch (error) { handler }\<close> passes a throw of the body to the handler,
  and \<^verbatim>\<open>for (const x of xs) { body }\<close> leaves the loop at the first throw of its body.
\<close>

definition bind_prog ::
  "('s \<Rightarrow> 'a outcome \<times> 's) \<Rightarrow> ('a \<Rightarrow> 's \<Rightarrow> 'b outcome \<times> 's) \<Rightarrow> 's \<Rightarrow> 'b outcome \<times> 's" where
  "bind_prog m f s = (case m s of (Returns a, s') \<Rightarrow> f a s' | (Throws e, s') \<Rightarrow> (Throws e, s'))"

definition try_catch ::
  "('s \<Rightarrow> 'a outcome \<times> 's) \<Rightarrow> (thrown \<Rightarrow> 's \<Rightarrow> 'a outcome \<times> 's) \<Rightarrow> 's \<Rightarrow> 'a outcome \<times> 's" where
  "try_catch body handler s =
     (case body s of (Returns a, s') \<Rightarrow> (Returns a, s') | (Throws e, s') \<Rightarrow> handler e s')"

fun for_of :: "('x \<Rightarrow> 's \<Rightarrow> unit outcome \<times> 's) \<Rightarrow> 'x list \<Rightarrow> 's \<Rightarrow> unit outcome \<times> 's" where
  "for_of body [] s = (Returns (), s)"
| "for_of body (x # xs) s =
     (case body x s of (Returns _, s') \<Rightarrow> for_of body xs s' | (Throws e, s') \<Rightarrow> (Throws e, s'))"

section \<open>The event emitter (utils/event-emitter.ts)\<close>

text \<open>The thirteen members of the union type \<^verbatim>\<open>TouchIDEventType\<close>.\<close>

datatype TouchIDEventType =
    authentication_start
  | authentication_success
  | authentication_failure
  | authentication_cancel
  | device_lockout
  | device_available
  | device_unavailable
  | cache_created
  | cache_used
  | cache_expired
  | initialization_start
  | initialization_complete
  | initialization_error

text \<open>
  \<^verbatim>\<open>interface EventListener { handler; once }\<close>. A handler is a JavaScript function, compared
  by identity (\<^verbatim>\<open>listener.handler === handler\<close>): it is named by a number, and what the
  function does when called is looked up in a table of behaviours (below).
\<close>

record EventListener =
  handler :: nat
  once :: bool

text \<open>
  \<^verbatim>\<open>private listeners: Map<TouchIDEventType, EventListener[]>\<close>. A JavaScript \<^verbatim>\<open>Map\<close> keeps
  its keys in insertion order, and \<^verbatim>\<open>eventNames\<close> shows that order, so the registry is an
  association list: \<^verbatim>\<open>get\<close> is \<^const>\<open>map_of\<close>, \<^verbatim>\<open>set\<close> is \<^const>\<open>AList.update\<close> (a present key
  keeps its place, a new key goes last), \<^verbatim>\<open>delete\<close> is \<^const>\<open>AList.delete\<close>.
\<close>

type_synonym registry = "(TouchIDEventType \<times> EventListener list) list"

definition on :: "TouchIDEventType \<Rightarrow> nat \<Rightarrow> registry \<Rightarrow> registry" where
  "on event h reg =
     (let reg1 = (if map_of reg event = None then AList.update event [] reg else reg)
      in case map_of reg1 event of
           None \<Rightarrow> reg1
         | Some eventListeners \<Rightarrow>
             AList.update event (eventListeners @ [\<lparr>handler = h, once = False\<rparr>]) reg1)"

definition once_on :: "TouchIDEventType \<Rightarrow> nat \<Rightarrow> registry \<Rightarrow> registry" where
  "once_on event h reg =
     (let reg1 = (if map_of reg event = None then AList.update event [] reg else reg)
      in case map_of reg1 event of
           None \<Rightarrow> reg1
         | Some eventListeners \<Rightarrow>
             AList.update event (eventListeners @ [\<lparr>handler = h, once = True\<rparr>]) reg1)"

text \<open>\<^verbatim>\<open>Array.prototype.findIndex\<close> (\<open>None\<close> for \<^verbatim>\<open>-1\<close>) and \<^verbatim>\<open>splice(index, 1)\<close>.\<close>

fun findIndex :: "('a \<Rightarrow> bool) \<Rightarrow> 'a list \<Rightarrow> nat option" where
  "findIndex p [] = None"
| "findIndex p (x # xs) =
     (if p x then Some 0 else (case findIndex p xs of None \<Rightarrow> None | Some i \<Rightarrow> Some (Suc i)))"

definition splice1 :: "nat \<Rightarrow> 'a list \<Rightarrow> 'a list" where
  "splice1 i xs = take i xs @ drop (Suc i) xs"

definition off :: "TouchIDEventType \<Rightarrow> nat \<Rightarrow> registry \<Rightarrow> registry" where
  "off event h reg =
     (case map_of reg event of
        None \<Rightarrow> reg
      | Some eventListeners \<Rightarrow>
          (let spliced = (case findIndex (\<lambda>listener. handler listener = h) eventListeners of
                            None \<Rightarrow> eventListeners
                          | Some index \<Rightarrow> splice1 index eventListeners)
           in if length spliced = 0 then AList.delete event reg
              else AList.update event spliced reg))"

definition removeAllListeners :: "TouchIDEventType option \<Rightarrow> registry \<Rightarrow> registry" where
  "removeAllListeners event reg =
     (case event of Some ev \<Rightarrow> AList.delete ev reg | None \<Rightarrow> [])"

definition listenerCount :: "TouchIDEventType \<Rightarrow> registry \<Rightarrow> nat" where
  "listenerCount event reg =
     (case map_of reg event of None \<Rightarrow> 0 | Some eventListeners \<Rightarrow> length eventListeners)"

definition eventNames :: "registry \<Rightarrow> TouchIDEventType list" where
  "eventNames reg = map fst reg"

text \<open>
  The emitter is its registry together with two logs that the source does not keep but that
  the properties below speak about: every handler invocation made by a dispatch loop
  (handler, event kind, payload), in order, and every \<^verbatim>\<open>console.error\<close> line of \<^verbatim>\<open>emit\<close>.
\<close>

record 'd emitter =
  listeners :: registry
  invoked :: "(nat \<times> TouchIDEventType \<times> 'd) list"
  console_errors :: "(TouchIDEventType \<times> thrown) list"

text \<open>
  What a handler does when called with a payload: it may change the registry (through
  \<^verbatim>\<open>on\<close>, \<^verbatim>\<open>once\<close>, \<^verbatim>\<open>off\<close>, \<^verbatim>\<open>removeAllListeners\<close>, in any combination) and it returns or throws.
  The table is arbitrary in every theorem that does not restrict it. Invocations that a handler
  causes by calling \<^verbatim>\<open>emit\<close> itself belong to that nested pass and are not part of the log.
\<close>

type_synonym 'd handlers = "nat \<Rightarrow> 'd \<Rightarrow> registry \<Rightarrow> unit outcome \<times> registry"

definition call_handler ::
  "'d handlers \<Rightarrow> TouchIDEventType \<Rightarrow> 'd \<Rightarrow> EventListener \<Rightarrow> 'd emitter \<Rightarrow> unit outcome \<times> 'd emitter" where
  "call_handler H event d listener E =
     (case H (handler listener) d (listeners E) of
        (r, reg') \<Rightarrow>
          (r, E\<lparr>listeners := reg', invoked := invoked E @ [(handler listener, event, d)]\<rparr>))"

definition console_error ::
  "TouchIDEventType \<Rightarrow> thrown \<Rightarrow> 'd emitter \<Rightarrow> unit outcome \<times> 'd emitter" where
  "console_error event e E = (Returns (), E\<lparr>console_errors := console_errors E @ [(event, e)]\<rparr>)"

text \<open>
  The first half of \<^verbatim>\<open>emit\<close>, up to the dispatch loop: the state in which dispatch begins.
  \<^verbatim>\<open>listenersToExecute = [...eventListeners]\<close> is a copy, so the loop runs over the list as it
  was, whatever happens to the registry meanwhile.
\<close>

definition emit_prune :: "TouchIDEventType \<Rightarrow> EventListener list \<Rightarrow> 'd emitter \<Rightarrow> 'd emitter" where
  "emit_prune event eventListeners E =
     (let remainingListeners = filter (\<lambda>listener. \<not> once listener) eventListeners
      in E\<lparr>listeners := AList.update event remainingListeners (listeners E)\<rparr>)"

definition emit ::
  "'d handlers \<Rightarrow> TouchIDEventType \<Rightarrow> 'd \<Rightarrow> 'd emitter \<Rightarrow> unit outcome \<times> 'd emitter" where
  "emit H event d E =
     (case map_of (listeners E) event of
        None \<Rightarrow> (Returns (), E)
      | Some eventListeners \<Rightarrow>
          if length eventListeners = 0 then (Returns (), E)
          else
            (let listenersToExecute = eventListeners
             in for_of
                  (\<lambda>listener. try_catch (call_handler H event d listener) (console_error event))
                  listenersToExecute
                  (emit_prune event eventListeners E)))"

text \<open>Reading aids: the listeners registered for a kind, and the handlers among them.\<close>

definition listeners_of :: "registry \<Rightarrow> TouchIDEventType \<Rightarrow> EventListener list" where
  "listeners_of reg event = (case map_of reg event of None \<Rightarrow> [] | Some ls \<Rightarrow> ls)"

definition times_invoked :: "nat \<Rightarrow> TouchIDEventType \<Rightarrow> 'd emitter \<Rightarrow> nat" where
  "times_invoked h event E = length (filter (\<lambda>c. fst c = h \<and> fst (snd c) = event) (invoked E))"

definition new_emitter :: "'d emitter" where
  "new_emitter = \<lparr>listeners = [], invoked = [], console_errors = []\<rparr>"

text \<open>
  A handler that leaves the registry alone, whether it returns or throws, and a handler that
  leaves the entry of one kind alone (it may register and remove listeners of other kinds).
\<close>

definition inert :: "'d handlers \<Rightarrow> nat \<Rightarrow> bool" where
  "inert H h = (\<forall>d reg. snd (H h d reg) = reg)"

definition leaves_kind :: "'d handlers \<Rightarrow> TouchIDEventType \<Rightarrow> nat \<Rightarrow> bool" where
  "leaves_kind H event h = (\<forall>d reg. map_of (snd (H h d reg)) event = map_of reg event)"

section \<open>Types shared by the service and the native module (types/touchid.ts)\<close>

datatype TouchIDMethod = direct | cached

text \<open>
  \<^verbatim>\<open>interface DeviceData\<close>, with the \<^verbatim>\<open>systemVersion\<close> the native module adds. The values come
  from the platform (\<^verbatim>\<open>LAContext\<close>, \<^verbatim>\<open>system_profiler\<close>); the model takes them as given.
\<close>

record DeviceData =
  biometryType :: string
  hardwareUUID :: string
  deviceSerial :: string
  deviceModel :: string
  systemVersion :: string

text \<open>
  \<^verbatim>\<open>interface TouchIDResult { success; error?; data? }\<close>. The value a \<^verbatim>\<open>promptTouchID\<close> promise
  resolves with is read through the same three properties, so it has the same type.
\<close>

record TouchIDResult =
  success :: bool
  error :: "string option"
  data :: "DeviceData option"

text \<open>
  A JavaScript \<^verbatim>\<open>number\<close>: a finite value, \<^verbatim>\<open>NaN\<close>, or one of the two infinities. Every
  finite double is a rational number, and the comparisons and conversions below are exact on
  it (\<^verbatim>\<open>-0\<close> is \<^verbatim>\<open>0\<close> for all of them). \<open>js_less a b\<close> is \<^verbatim>\<open>a < b\<close>, and so \<open>js_less b a\<close> is
  \<^verbatim>\<open>a > b\<close>: a comparison with \<^verbatim>\<open>NaN\<close> is false either way. \<open>truthy\<close> is the test of \<^verbatim>\<open>||\<close>
  and \<^verbatim>\<open>if\<close>.
\<close>

datatype js_number = Num rat | NaN | PosInfinity | NegInfinity

definition js_less :: "js_number \<Rightarrow> js_number \<Rightarrow> bool" where
  "js_less a b =
     (case a of
        Num x \<Rightarrow> (case b of Num y \<Rightarrow> x < y | PosInfinity \<Rightarrow> True | _ \<Rightarrow> False)
      | NegInfinity \<Rightarrow> (case b of Num y \<Rightarrow> True | PosInfinity \<Rightarrow> True | _ \<Rightarrow> False)
      | _ \<Rightarrow> False)"

definition truthy :: "js_number \<Rightarrow> bool" where
  "truthy n = (case n of Num x \<Rightarrow> x \<noteq> 0 | NaN \<Rightarrow> False | _ \<Rightarrow> True)"

text \<open>
  \<^verbatim>\<open>Napi::Number::Int32Value()\<close>, the conversion to a C \<^verbatim>\<open>int\<close>: \<^verbatim>\<open>NaN\<close> and the infinities
  give 0; a finite value is truncated towards zero and keeps its low 32 bits, read as a signed
  integer, so it wraps from \<open>2\<^sup>3\<^sup>1\<close> on.
\<close>

definition Int32Value :: "js_number \<Rightarrow> int" where
  "Int32Value n =
     (case n of
        Num x \<Rightarrow>
          (let truncated = (if x < 0 then - \<lfloor>- x\<rfloor> else \<lfloor>x\<rfloor>)
           in (truncated + 2 ^ 31) mod 2 ^ 32 - 2 ^ 31)
      | _ \<Rightarrow> 0)"

text \<open>The object \<^verbatim>\<open>{ reason, method, ttl }\<close> passed to \<^verbatim>\<open>promptTouchID\<close>.\<close>

record prompt_args =
  arg_reason :: string
  arg_method :: TouchIDMethod
  arg_ttl :: js_number

section \<open>The native module's authentication cache (native/touchid.mm)\<close>

text \<open>
  The three static variables \<^verbatim>\<open>lastAuthTime\<close> (\<^verbatim>\<open>nil\<close> is \<open>None\<close>), \<^verbatim>\<open>isCached\<close>, \<^verbatim>\<open>cacheTTL\<close>, and
  the property list \<^verbatim>\<open>touchid_cache.plist\<close> (\<open>None\<close> while the file does not exist).
  An \<^verbatim>\<open>NSDate\<close> and an \<^verbatim>\<open>NSTimeInterval\<close> are seconds; the source holds them in double precision,
  the model in exact rational arithmetic, so \<^verbatim>\<open>ttl / 1000.0\<close> and the difference of two dates
  are exact. Milliseconds of the JavaScript clock convert with \<open>seconds\<close>. What is not exact is
  the file: a date written to the property list comes back as the platform's serialisation
  keeps it (\<open>plist_date\<close> below).
\<close>

record cache_plist =
  plist_lastAuthTime :: rat
  plist_isCached :: bool
  plist_cacheTTL :: rat

record native_state =
  lastAuthTime :: "rat option"
  isCached :: bool
  cacheTTL :: rat
  cache_file :: "cache_plist option"

definition seconds :: "int \<Rightarrow> rat" where
  "seconds ms = of_int ms / 1000"

text \<open>
  What the platform decides. \<^verbatim>\<open>evaluatePolicy:localizedReason:reply:\<close> answers success, or
  an error with its localized description, after some milliseconds. \<open>plist_date\<close> is what
  \<^verbatim>\<open>writeToFile:atomically:\<close> followed by \<^verbatim>\<open>dictionaryWithContentsOfFile:\<close> makes of a date: the
  file is an XML property list, whose \<^verbatim>\<open><date>\<close> elements hold whole seconds, so the date read
  back need not be the date written. The theorems hold for every such function.
\<close>

datatype la_reply = la_success nat | la_error string nat

record la_platform =
  device :: DeviceData
  evaluatePolicy :: "string \<Rightarrow> int \<Rightarrow> la_reply"
  plist_date :: "rat \<Rightarrow> rat"
  macOS_10_12_2 :: bool
  macOS_10_13_2 :: bool
  canEvaluateBiometrics :: bool
  canEvaluateOwner :: bool

text \<open>The module as loaded: \<^verbatim>\<open>lastAuthTime = nil; isCached = NO; cacheTTL = 30.0\<close>.\<close>

definition native_loaded :: "cache_plist option \<Rightarrow> native_state" where
  "native_loaded file = \<lparr>lastAuthTime = None, isCached = False, cacheTTL = 30, cache_file = file\<rparr>"

text \<open>\<^verbatim>\<open>loadCache()\<close>, called at the time \<open>now\<close> (\<^verbatim>\<open>[NSDate date]\<close>).\<close>

definition loadCache :: "rat \<Rightarrow> native_state \<Rightarrow> native_state" where
  "loadCache now ns =
     (case cache_file ns of
        None \<Rightarrow> ns
      | Some cacheData \<Rightarrow>
          (let ns1 = ns\<lparr>lastAuthTime := Some (plist_lastAuthTime cacheData),
                         isCached := plist_isCached cacheData,
                         cacheTTL := plist_cacheTTL cacheData\<rparr>
           in case lastAuthTime ns1 of
                None \<Rightarrow> ns1
              | Some t \<Rightarrow>
                  if isCached ns1 then
                    (let timeSinceLastAuth = now - t
                     in if timeSinceLastAuth \<ge> cacheTTL ns1
                        then ns1\<lparr>isCached := False, lastAuthTime := None\<rparr>
                        else ns1)
                  else ns1))"

text \<open>
  \<^verbatim>\<open>saveCache()\<close>. With \<^verbatim>\<open>lastAuthTime\<close> \<^verbatim>\<open>nil\<close> the dictionary holds \<^verbatim>\<open>NSNull\<close>, which is not a
  property-list value, and \<^verbatim>\<open>writeToFile\<close> writes nothing; the source only calls it right after
  setting \<^verbatim>\<open>lastAuthTime\<close>. The write itself is taken to succeed; the file holds the date as
  \<open>plist_date\<close> gives it, and the static variable keeps the date as it was.
\<close>

definition saveCache :: "la_platform \<Rightarrow> native_state \<Rightarrow> native_state" where
  "saveCache pf ns =
     (case lastAuthTime ns of
        None \<Rightarrow> ns
      | Some t \<Rightarrow>
          ns\<lparr>cache_file := Some \<lparr>plist_lastAuthTime = plist_date pf t, plist_isCached = isCached ns,
                                  plist_cacheTTL = cacheTTL ns\<rparr>\<rparr>)"

text \<open>
  The block \<^verbatim>\<open>// Check if we can use cached authentication\<close> of \<^verbatim>\<open>PromptTouchID\<close>: the value
  of \<^verbatim>\<open>useCache\<close> and the static variables after it.
\<close>

definition checkCache :: "TouchIDMethod \<Rightarrow> int \<Rightarrow> rat \<Rightarrow> native_state \<Rightarrow> bool \<times> native_state" where
  "checkCache method ttl now ns =
     (if method = cached then
        (let ns1 = ns\<lparr>cacheTTL := of_int ttl / 1000\<rparr>
         in case lastAuthTime ns1 of
              None \<Rightarrow> (False, ns1)
            | Some t \<Rightarrow>
                if isCached ns1 then
                  (let timeSinceLastAuth = now - t
                   in if timeSinceLastAuth < cacheTTL ns1 then (True, ns1)
                      else (False, ns1\<lparr>isCached := False\<rparr>))
                else (False, ns1))
      else (False, ns))"

text \<open>
  The block \<^verbatim>\<open>// Update cache state on successful authentication\<close> of the reply callback, run
  at the time \<open>now\<close> of the reply.
\<close>

definition updateCache ::
  "la_platform \<Rightarrow> TouchIDMethod \<Rightarrow> rat \<Rightarrow> native_state \<Rightarrow> native_state" where
  "updateCache pf method now ns =
     (if method = cached then saveCache pf (ns\<lparr>lastAuthTime := Some now, isCached := True\<rparr>)
      else ns)"

text \<open>
  \<^verbatim>\<open>PromptTouchID\<close>, called at \<open>now\<close> (milliseconds): what the promise settles with, the static
  variables and the file afterwards, and the milliseconds until it settles. The promise is
  rejected with a \<^verbatim>\<open>Napi::String\<close>, a string and not an \<^verbatim>\<open>Error\<close>. The reply callback resolves
  with \<^verbatim>\<open>success = true\<close> whenever \<^verbatim>\<open>error\<close> is \<^verbatim>\<open>nil\<close>. \<^verbatim>\<open>int ttl\<close> is read from the
  argument with \<^verbatim>\<open>Int32Value()\<close>.
\<close>

definition PromptTouchID ::
  "la_platform \<Rightarrow> prompt_args \<Rightarrow> int \<Rightarrow> native_state \<Rightarrow> TouchIDResult outcome \<times> native_state \<times> nat" where
  "PromptTouchID pf args now ns =
     (let ttl = Int32Value (arg_ttl args);
          ns1 = loadCache (seconds now) ns;
          (useCache, ns2) = checkCache (arg_method args) ttl (seconds now) ns1
      in if useCache then
           (Returns \<lparr>success = True, error = None, data = Some (device pf)\<rparr>, ns2, 0)
         else
           (case evaluatePolicy pf (arg_reason args) now of
              la_error description dt \<Rightarrow> (Throws (JsOther description), ns2, dt)
            | la_success dt \<Rightarrow>
                (Returns \<lparr>success = True, error = None, data = Some (device pf)\<rparr>,
                 updateCache pf (arg_method args) (seconds (now + int dt)) ns2, dt)))"

text \<open>\<^verbatim>\<open>CanPromptTouchID\<close>.\<close>

definition CanPromptTouchID :: "la_platform \<Rightarrow> bool" where
  "CanPromptTouchID pf =
     (if macOS_10_12_2 pf then
        (let can_evaluate =
               (if canEvaluateBiometrics pf then
                  (if macOS_10_13_2 pf then biometryType (device pf) = ''TouchID'' else True)
                else False)
         in if \<not> can_evaluate then canEvaluateOwner pf else can_evaluate)
      else False)"

text \<open>
  The validity check a cached request makes at \<open>now\<close> (milliseconds) with the given \<^verbatim>\<open>ttl\<close>
  (the C \<^verbatim>\<open>int\<close>): \<^verbatim>\<open>loadCache()\<close> followed by the \<^verbatim>\<open>useCache\<close> block.
\<close>

definition cacheValid :: "int \<Rightarrow> int \<Rightarrow> native_state \<Rightarrow> bool" where
  "cacheValid ttl now ns = fst (checkCache cached ttl (seconds now) (loadCache (seconds now) ns))"

section \<open>The service (touchid.ts)\<close>

subsection \<open>Options and their validation\<close>

text \<open>\<^verbatim>\<open>interface TouchIDOptions { reason?; method?; ttl? }\<close>; \<open>None\<close> is \<^verbatim>\<open>undefined\<close>.\<close>

record TouchIDOptions =
  opt_reason :: "string option"
  opt_method :: "TouchIDMethod option"
  opt_ttl :: "js_number option"

text \<open>
  \<^verbatim>\<open>String.prototype.trim\<close> strips white space and line terminators from both ends. A
  \<^typ>\<open>char\<close> stands for a code unit below 256; the ones \<^verbatim>\<open>trim\<close> strips are tab, line feed,
  vertical tab, form feed, carriage return, space and the no-break space.
\<close>

definition is_whitespace :: "char \<Rightarrow> bool" where
  "is_whitespace c = (of_char c \<in> {9, 10, 11, 12, 13, 32, 160 :: nat})"

definition trim :: "string \<Rightarrow> string" where
  "trim s = rev (dropWhile is_whitespace (rev (dropWhile is_whitespace s)))"

text \<open>\<^verbatim>\<open>String.prototype.includes\<close>.\<close>

fun includes_str :: "string \<Rightarrow> string \<Rightarrow> bool" where
  "includes_str [] p = (p = [])"
| "includes_str (c # cs) p = (take (length p) (c # cs) = p \<or> includes_str cs p)"

text \<open>
  The result of \<^verbatim>\<open>validateOptions\<close>, \<^verbatim>\<open>{ valid: boolean; error?: string }\<close>: the function builds
  \<^verbatim>\<open>{ valid: true }\<close> or \<^verbatim>\<open>{ valid: false, error }\<close> and nothing else.
\<close>

datatype validation = Valid | Invalid string

definition validateOptions :: "TouchIDOptions \<Rightarrow> validation" where
  "validateOptions options =
     (if (case opt_ttl options of
            None \<Rightarrow> False
          | Some ttl \<Rightarrow> js_less ttl (Num 1000) \<or> js_less (Num 300000) ttl)
      then Invalid ''TTL must be between 1000 and 300000 milliseconds''
      else if (case opt_reason options of None \<Rightarrow> False | Some reason \<Rightarrow> length (trim reason) = 0)
      then Invalid ''Reason cannot be empty''
      else Valid)"

text \<open>
  The two violations in the words of the documentation, to compare \<^verbatim>\<open>validateOptions\<close> with:
  a \<^verbatim>\<open>ttl\<close> is given, is a number (not \<^verbatim>\<open>NaN\<close>) and lies outside the range from 1000 to 300000;
  a \<^verbatim>\<open>reason\<close> is given and nothing is left of it after trimming.
\<close>

definition ttl_in_range :: "js_number \<Rightarrow> bool" where
  "ttl_in_range n = (case n of Num x \<Rightarrow> 1000 \<le> x \<and> x \<le> 300000 | _ \<Rightarrow> False)"

definition ttl_outside_range :: "TouchIDOptions \<Rightarrow> bool" where
  "ttl_outside_range options =
     (case opt_ttl options of None \<Rightarrow> False | Some ttl \<Rightarrow> ttl \<noteq> NaN \<and> \<not> ttl_in_range ttl)"


text \<open>The members of \<^verbatim>\<open>enum TouchIDError\<close> that the service uses.\<close>

definition NOT_AVAILABLE :: string where "NOT_AVAILABLE = ''Touch ID not available''"
definition NOT_ENROLLED :: string where "NOT_ENROLLED = ''No Touch ID enrolled''"
definition LOCKOUT :: string where "LOCKOUT = ''Touch ID is locked out''"
definition USER_CANCEL :: string where "USER_CANCEL = ''User cancelled authentication''"
definition PASSCODE_NOT_SET :: string where "PASSCODE_NOT_SET = ''Passcode not set''"
definition NOT_INTERACTIVE :: string where "NOT_INTERACTIVE = ''Not interactive''"

subsection \<open>Event payloads\<close>

text \<open>
  The members of \<^verbatim>\<open>TouchIDEventData\<close> that the service emits, fields in the order of the
  declaration; timestamps and durations are milliseconds of \<^verbatim>\<open>Date.now()\<close>.
\<close>

datatype payload =
    AuthStart int TouchIDMethod string
  | AuthSuccess int TouchIDMethod int "DeviceData option"
  | AuthFailure int TouchIDMethod string int
  | AuthCancel int TouchIDMethod int
  | DeviceLockout int int string
  | DeviceAvailable int string
  | DeviceUnavailable int string
  | CacheCreated int js_number
  | InitStart int
  | InitComplete int int
  | InitError int string

subsection \<open>The native module as the service sees it\<close>

text \<open>
  \<^verbatim>\<open>interface BiometricInfo\<close>.
\<close>

record BiometricInfo =
  biometricsAvailable :: bool
  info_biometryType :: string
  info_deviceSerial :: string
  info_deviceModel :: string
  info_systemVersion :: string
  info_hardwareUUID :: string

text \<open>
  \<^verbatim>\<open>private nativeModule: any\<close>. Each of its three functions may be missing
  (\<^verbatim>\<open>typeof ... !== 'function'\<close>, \<open>None\<close>). Called at a time, on the module's own state \<open>'p\<close>,
  a function returns or throws (a promise resolves or rejects), leaves a new state and takes
  some milliseconds. The service is written against any such module, not only the shipped one.
\<close>

record 'p provider =
  canPromptTouchID :: "(int \<Rightarrow> 'p \<Rightarrow> bool outcome \<times> 'p \<times> nat) option"
  promptTouchID :: "(prompt_args \<Rightarrow> int \<Rightarrow> 'p \<Rightarrow> TouchIDResult outcome \<times> 'p \<times> nat) option"
  getBiometricInfo :: "(int \<Rightarrow> 'p \<Rightarrow> BiometricInfo outcome \<times> 'p \<times> nat) option"

datatype provider_call = CanPromptCall | PromptCall prompt_args | BiometricInfoCall

subsection \<open>The service object\<close>

text \<open>
  \<^verbatim>\<open>private initialized\<close> and the pending \<^verbatim>\<open>initPromise\<close> are one field: \<open>Initialized\<close>, or
  \<open>Loading delay startTime load\<close> while \<^verbatim>\<open>_init\<close> is suspended at \<^verbatim>\<open>await import('module')\<close>,
  where \<open>load\<close> is what loading the addon will give (the module, or the value thrown) and
  \<open>delay\<close> is the number of milliseconds after \<open>startTime\<close> at which the import settles and
  \<^verbatim>\<open>_init\<close> resumes by itself. \<^verbatim>\<open>_init\<close> sets \<^verbatim>\<open>initialized = true\<close> on each of its three paths
  and nowhere else.
\<close>

datatype 'p init_state = Loading nat int "'p provider outcome" | Initialized

text \<open>
  The fields of \<^verbatim>\<open>TouchIDService\<close>, the platform (\<^verbatim>\<open>os.platform() === 'darwin'\<close>), the clock
  read by \<^verbatim>\<open>Date.now()\<close>, the state of the native module, and two logs the source does not
  keep: every \<^verbatim>\<open>this.eventEmitter.emit\<close> of the service (kind and payload, in order) and
  every call of a function of the native module. Lines written to the console are left out.
\<close>

record 'p service =
  darwin :: bool
  nativeModule :: "'p provider option"
  init :: "'p init_state"
  eventEmitter :: "payload emitter"
  emitted :: "(TouchIDEventType \<times> payload) list"
  provider_calls :: "provider_call list"
  native :: 'p
  clock :: int

definition initialized :: "'p service \<Rightarrow> bool" where
  "initialized st = (case init st of Initialized \<Rightarrow> True | Loading n t load \<Rightarrow> False)"

definition svc_emit ::
  "payload handlers \<Rightarrow> TouchIDEventType \<Rightarrow> payload \<Rightarrow> 'p service \<Rightarrow> unit outcome \<times> 'p service" where
  "svc_emit H event p st =
     (case emit H event p (eventEmitter st) of
        (r, E') \<Rightarrow> (r, st\<lparr>eventEmitter := E', emitted := emitted st @ [(event, p)]\<rparr>))"

definition return_prog :: "'a \<Rightarrow> 's \<Rightarrow> 'a outcome \<times> 's" where
  "return_prog a s = (Returns a, s)"

definition throw_prog :: "thrown \<Rightarrow> 's \<Rightarrow> 'a outcome \<times> 's" where
  "throw_prog e s = (Throws e, s)"

text \<open>\<^verbatim>\<open>error instanceof Error ? error.message : fallback\<close>.\<close>

definition message_or :: "string \<Rightarrow> thrown \<Rightarrow> string" where
  "message_or fallback e = (case e of JsError message \<Rightarrow> message | JsOther v \<Rightarrow> fallback)"

subsection \<open>Initialization\<close>

text \<open>
  The rest of \<^verbatim>\<open>_init\<close> after \<^verbatim>\<open>await import('module')\<close>: the \<^verbatim>\<open>try\<close> block from
  \<^verbatim>\<open>require(nativePath)\<close> on, and the \<^verbatim>\<open>catch\<close> block.
\<close>

definition init_resume ::
  "payload handlers \<Rightarrow> int \<Rightarrow> 'p provider outcome \<Rightarrow> 'p service \<Rightarrow> unit outcome \<times> 'p service" where
  "init_resume H startTime load =
     try_catch
       (bind_prog
          (\<lambda>st. case load of
                   Returns m \<Rightarrow> (Returns (), st\<lparr>nativeModule := Some m, init := Initialized\<rparr>)
                 | Throws e \<Rightarrow> (Throws e, st))
          (\<lambda>_ st. svc_emit H initialization_complete
                     (InitComplete (clock st) (clock st - startTime)) st))
       (\<lambda>error st.
          svc_emit H initialization_error
            (InitError (clock st) (message_or ''Unknown initialization error'' error))
            (st\<lparr>nativeModule := None, init := Initialized\<rparr>))"

text \<open>
  The constructor: a new emitter, then \<^verbatim>\<open>this.init()\<close>, which runs \<^verbatim>\<open>_init\<close> up to its first
  \<^verbatim>\<open>await\<close>. Off macOS that is all of \<^verbatim>\<open>_init\<close>. Nobody can have registered a listener yet.
\<close>

definition new_service ::
  "payload handlers \<Rightarrow> bool \<Rightarrow> nat \<Rightarrow> 'p provider outcome \<Rightarrow> 'p \<Rightarrow> int \<Rightarrow> unit outcome \<times> 'p service" where
  "new_service H is_darwin delay load p now =
     bind_prog
       (svc_emit H initialization_start (InitStart now))
       (\<lambda>_ st.
          if \<not> darwin st then
            svc_emit H initialization_error
              (InitError (clock st) ''Touch ID is only available on macOS'')
              (st\<lparr>nativeModule := None, init := Initialized\<rparr>)
          else (Returns (), st))
       \<lparr>darwin = is_darwin, nativeModule = None, init = Loading delay now load,
        eventEmitter = new_emitter, emitted = [], provider_calls = [], native = p, clock = now\<rparr>"

text \<open>
  One turn of \<^verbatim>\<open>await new Promise(resolve => setTimeout(resolve, 10))\<close>: ten milliseconds
  pass. The timers do not drive \<^verbatim>\<open>_init\<close>: it resumes by itself when its import settles, and
  does so during the turn in which that moment falls (at once, if the moment has passed
  already). Its events carry the time of the resumption, not the time at which the turn
  ends. A rejection of the \<^verbatim>\<open>initPromise\<close> is observed by nobody.
\<close>

definition timer_turn :: "payload handlers \<Rightarrow> 'p service \<Rightarrow> 'p service" where
  "timer_turn H st =
     (case init st of
        Initialized \<Rightarrow> st\<lparr>clock := clock st + 10\<rparr>
      | Loading delay startTime load \<Rightarrow>
          if startTime + int delay \<le> clock st + 10 then
            (snd (init_resume H startTime load
                    (st\<lparr>clock := max (clock st) (startTime + int delay)\<rparr>)))
              \<lparr>clock := clock st + 10\<rparr>
          else st\<lparr>clock := clock st + 10\<rparr>)"

definition polls_left :: "'p service \<Rightarrow> nat" where
  "polls_left st =
     (case init st of
        Initialized \<Rightarrow> 0
      | Loading delay startTime load \<Rightarrow> Suc (nat (startTime + int delay - clock st)))"

text \<open>\<^verbatim>\<open>while (!this.initialized) { await new Promise(...) }\<close>.\<close>

function waitForInit :: "payload handlers \<Rightarrow> 'p service \<Rightarrow> 'p service" where
  "waitForInit H st =
     (case init st of
        Initialized \<Rightarrow> st
      | Loading n startTime load \<Rightarrow> waitForInit H (timer_turn H st))"
  by pat_completeness auto
termination
proof (relation "measure (\<lambda>(H, st). polls_left st)")
  show "wf (measure (\<lambda>(H :: payload handlers, st :: 'p service). polls_left st))"
    by simp
next
  fix H :: "payload handlers" and st :: "'p service" and n startTime load
  assume "init st = Loading n startTime load"
  then have "polls_left (timer_turn H st) < polls_left st"
    by (simp add: timer_turn_def polls_left_def init_resume_def try_catch_def
        bind_prog_def svc_emit_def split: prod.splits outcome.splits)
  then show "((H, timer_turn H st), (H, st)) \<in> measure (\<lambda>(H, st). polls_left st)"
    by simp
qed

declare waitForInit.simps [simp del]

subsection \<open>Calls into the native module\<close>

text \<open>\<^verbatim>\<open>await this.nativeModule.f(...)\<close>: the call is logged, the module's state and the clock move on.\<close>

definition call_native ::
  "provider_call \<Rightarrow> (int \<Rightarrow> 'p \<Rightarrow> 'a outcome \<times> 'p \<times> nat) \<Rightarrow> 'p service \<Rightarrow> 'a outcome \<times> 'p service" where
  "call_native c f st =
     (case f (clock st) (native st) of
        (r, p', dt) \<Rightarrow>
          (r, st\<lparr>native := p', clock := clock st + int dt,
                 provider_calls := provider_calls st @ [c]\<rparr>))"

subsection \<open>\<^verbatim>\<open>isAvailable\<close>\<close>

definition isAvailable :: "payload handlers \<Rightarrow> 'p service \<Rightarrow> bool outcome \<times> 'p service" where
  "isAvailable H st =
     (if \<not> darwin st then
        bind_prog
          (svc_emit H device_unavailable
             (DeviceUnavailable (clock st) ''Touch ID is only available on macOS''))
          (\<lambda>_. return_prog False) st
      else
        (let st1 = waitForInit H st
         in case nativeModule st1 of
              None \<Rightarrow>
                bind_prog
                  (svc_emit H device_unavailable
                     (DeviceUnavailable (clock st1) ''Touch ID native module not available''))
                  (\<lambda>_. return_prog False) st1
            | Some m \<Rightarrow>
                try_catch
                  (case canPromptTouchID m of
                     Some f \<Rightarrow>
                       bind_prog (call_native CanPromptCall f)
                         (\<lambda>available.
                            bind_prog
                              (\<lambda>s. if available then
                                      svc_emit H device_available
                                        (DeviceAvailable (clock s) ''TouchID'') s
                                    else
                                      svc_emit H device_unavailable
                                        (DeviceUnavailable (clock s)
                                           ''Touch ID not available on this device'') s)
                              (\<lambda>_. return_prog available))
                   | None \<Rightarrow> throw_prog (JsError ''canPromptTouchID function not available''))
                  (\<lambda>error.
                     bind_prog
                       (\<lambda>s. svc_emit H device_unavailable
                               (DeviceUnavailable (clock s) (message_or ''Unknown error'' error)) s)
                       (\<lambda>_. return_prog False))
                  st1))"

subsection \<open>\<^verbatim>\<open>getBiometricInfo\<close>\<close>

definition info_all :: "string \<Rightarrow> string \<Rightarrow> BiometricInfo" where
  "info_all kind v =
     \<lparr>biometricsAvailable = False, info_biometryType = kind, info_deviceSerial = v,
      info_deviceModel = v, info_systemVersion = v, info_hardwareUUID = v\<rparr>"

definition getBiometricInfo_op ::
  "payload handlers \<Rightarrow> 'p service \<Rightarrow> BiometricInfo outcome \<times> 'p service" where
  "getBiometricInfo_op H st =
     (if \<not> darwin st then
        return_prog (info_all ''Unsupported'' ''Unsupported Platform'') st
      else
        (let st1 = waitForInit H st
         in case nativeModule st1 of
              None \<Rightarrow> return_prog (info_all ''None'' '''') st1
            | Some m \<Rightarrow>
                try_catch
                  (case getBiometricInfo m of
                     Some f \<Rightarrow> call_native BiometricInfoCall f
                   | None \<Rightarrow> throw_prog (JsError ''getBiometricInfo function not available''))
                  (\<lambda>error. return_prog (info_all ''None'' ''Error''))
                  st1))"

subsection \<open>\<^verbatim>\<open>authenticate\<close>\<close>

text \<open>
  \<^verbatim>\<open>options.method || 'direct'\<close>, \<^verbatim>\<open>options.reason || 'Authenticate with Touch ID'\<close> and
  \<^verbatim>\<open>options.ttl || 30000\<close>: the default stands in for \<^verbatim>\<open>undefined\<close> and for the falsy values
  \<^verbatim>\<open>''\<close>, \<^verbatim>\<open>0\<close> and \<^verbatim>\<open>NaN\<close>.
\<close>

definition method_or_default :: "TouchIDOptions \<Rightarrow> TouchIDMethod" where
  "method_or_default options = (case opt_method options of None \<Rightarrow> direct | Some m \<Rightarrow> m)"

definition reason_or_default :: "TouchIDOptions \<Rightarrow> string" where
  "reason_or_default options =
     (case opt_reason options of
        None \<Rightarrow> ''Authenticate with Touch ID''
      | Some r \<Rightarrow> if r = [] then ''Authenticate with Touch ID'' else r)"

definition ttl_or_default :: "TouchIDOptions \<Rightarrow> js_number" where
  "ttl_or_default options =
     (case opt_ttl options of None \<Rightarrow> Num 30000 | Some t \<Rightarrow> if truthy t then t else Num 30000)"

text \<open>The \<^verbatim>\<open>try\<close> block, from \<^verbatim>\<open>const ttl = options.ttl || 30000\<close> to its \<^verbatim>\<open>return\<close>.\<close>

definition authenticate_try ::
  "payload handlers \<Rightarrow> TouchIDOptions \<Rightarrow> int \<Rightarrow> TouchIDMethod \<Rightarrow> string \<Rightarrow> 'p provider \<Rightarrow>
   'p service \<Rightarrow> TouchIDResult outcome \<times> 'p service" where
  "authenticate_try H options startTime method reason m =
     (let ttl = ttl_or_default options
      in case promptTouchID m of
           None \<Rightarrow> throw_prog (JsError ''promptTouchID function not available'')
         | Some f \<Rightarrow>
             bind_prog
               (call_native (PromptCall \<lparr>arg_reason = reason, arg_method = method, arg_ttl = ttl\<rparr>)
                  (f \<lparr>arg_reason = reason, arg_method = method, arg_ttl = ttl\<rparr>))
               (\<lambda>result s.
                  (let duration = clock s - startTime
                   in bind_prog
                        (if success result then
                           bind_prog
                             (if method = cached then
                                svc_emit H cache_created (CacheCreated (clock s) ttl)
                              else return_prog ())
                             (\<lambda>_. svc_emit H authentication_success
                                     (AuthSuccess (clock s) method duration (data result)))
                         else
                           svc_emit H authentication_failure
                             (AuthFailure (clock s) method
                                (case error result of
                                   None \<Rightarrow> ''Unknown error''
                                 | Some e \<Rightarrow> if e = [] then ''Unknown error'' else e)
                                duration))
                        (\<lambda>_. return_prog \<lparr>success = True, error = None, data = data result\<rparr>)
                        s)))"

text \<open>The \<^verbatim>\<open>catch\<close> block.\<close>

definition authenticate_catch ::
  "payload handlers \<Rightarrow> int \<Rightarrow> TouchIDMethod \<Rightarrow> thrown \<Rightarrow>
   'p service \<Rightarrow> TouchIDResult outcome \<times> 'p service" where
  "authenticate_catch H startTime method err =
     (let errorMessage = message_or ''Unknown error'' err
      in bind_prog
           (if includes_str errorMessage ''not available'' then return_prog NOT_AVAILABLE
            else if includes_str errorMessage ''not enrolled'' then return_prog NOT_ENROLLED
            else if includes_str errorMessage ''locked out'' then
              bind_prog
                (\<lambda>s. svc_emit H device_lockout (DeviceLockout (clock s) 300000 LOCKOUT) s)
                (\<lambda>_. return_prog LOCKOUT)
            else if includes_str errorMessage ''cancelled'' \<or> includes_str errorMessage ''canceled'' then
              bind_prog
                (\<lambda>s. svc_emit H authentication_cancel
                        (AuthCancel (clock s) method (clock s - startTime)) s)
                (\<lambda>_. return_prog USER_CANCEL)
            else if includes_str errorMessage ''passcode not set'' then return_prog PASSCODE_NOT_SET
            else if includes_str errorMessage ''not interactive'' then return_prog NOT_INTERACTIVE
            else return_prog errorMessage)
           (\<lambda>mappedError.
              bind_prog
                (\<lambda>s. svc_emit H authentication_failure
                        (AuthFailure (clock s) method mappedError (clock s - startTime)) s)
                (\<lambda>_. return_prog \<lparr>success = False, error = Some mappedError, data = None\<rparr>)))"

definition authenticate ::
  "payload handlers \<Rightarrow> TouchIDOptions \<Rightarrow> 'p service \<Rightarrow> TouchIDResult outcome \<times> 'p service" where
  "authenticate H options st =
     (let startTime = clock st;
          method = method_or_default options;
          reason = reason_or_default options
      in bind_prog
           (svc_emit H authentication_start (AuthStart startTime method reason))
           (\<lambda>_ st1.
              if \<not> darwin st1 then
                bind_prog
                  (svc_emit H authentication_failure
                     (AuthFailure (clock st1) method NOT_AVAILABLE (clock st1 - startTime)))
                  (\<lambda>_. return_prog \<lparr>success = False, error = Some NOT_AVAILABLE, data = None\<rparr>)
                  st1
              else
                (case validateOptions options of
                   Invalid validation_error \<Rightarrow>
                     bind_prog
                       (svc_emit H authentication_failure
                          (AuthFailure (clock st1) method validation_error (clock st1 - startTime)))
                       (\<lambda>_. return_prog
                               \<lparr>success = False, error = Some validation_error, data = None\<rparr>)
                       st1
                 | Valid \<Rightarrow>
                     (let st2 = waitForInit H st1
                      in case nativeModule st2 of
                           None \<Rightarrow>
                             bind_prog
                               (svc_emit H authentication_failure
                                  (AuthFailure (clock st2) method
                                     ''Touch ID native module not available''
                                     (clock st2 - startTime)))
                               (\<lambda>_. return_prog
                                       \<lparr>success = False,
                                        error = Some ''Touch ID native module not available'',
                                        data = None\<rparr>)
                               st2
                         | Some m \<Rightarrow>
                             try_catch
                               (authenticate_try H options startTime method reason m)
                               (authenticate_catch H startTime method)
                               st2)))
           st)"

subsection \<open>\<^verbatim>\<open>test\<close>\<close>

definition test :: "payload handlers \<Rightarrow> 'p service \<Rightarrow> unit outcome \<times> 'p service" where
  "test H =
     bind_prog (isAvailable H)
       (\<lambda>available.
          if available then
            bind_prog
              (authenticate H
                 \<lparr>opt_reason = Some ''Test Touch ID authentication'', opt_method = None,
                  opt_ttl = None\<rparr>)
              (\<lambda>result.
                 if \<not> success result then
                   throw_prog
                     (JsError (''Touch ID test failed: '' @
                        (case error result of None \<Rightarrow> ''undefined'' | Some e \<Rightarrow> e)))
                 else return_prog ())
          else throw_prog (JsError ''Touch ID is not available on this device''))"

subsection \<open>The shipped native module as a provider\<close>

text \<open>
  \<^verbatim>\<open>exports.canPromptTouchID\<close>, \<^verbatim>\<open>exports.promptTouchID\<close> and \<^verbatim>\<open>exports.getBiometricInfo\<close>;
  the last one only reads the platform, which hands it the record \<open>info\<close>.
\<close>

definition touchid_native :: "la_platform \<Rightarrow> BiometricInfo \<Rightarrow> native_state provider" where
  "touchid_native pf info =
     \<lparr>canPromptTouchID = Some (\<lambda>now ns. (Returns (CanPromptTouchID pf), ns, 0)),
      promptTouchID = Some (PromptTouchID pf),
      getBiometricInfo = Some (\<lambda>now ns. (Returns info, ns, 0))\<rparr>"

text \<open>
  The events a call added to the log, and the kinds among them; a state every service
  reaches: off macOS the constructor has already finished \<^verbatim>\<open>_init\<close>.
\<close>

definition new_events :: "'p service \<Rightarrow> 'p service \<Rightarrow> (TouchIDEventType \<times> payload) list" where
  "new_events before after = drop (length (emitted before)) (emitted after)"

definition is_cache_event :: "TouchIDEventType \<Rightarrow> bool" where
  "is_cache_event event = (event = cache_created \<or> event = cache_used \<or> event = cache_expired)"

definition constructed :: "'p service \<Rightarrow> bool" where
  "constructed st = (darwin st \<or> initialized st)"

text \<open>
  What initialization may change while an operation waits for it: the module, the flag, the
  clock, and the log, which grows by \<^verbatim>\<open>initialization:complete\<close> or \<^verbatim>\<open>initialization:error\<close>.
\<close>
definition init_step :: "'p service \<Rightarrow> 'p service \<Rightarrow> bool" where
  "init_step st st' =
     (darwin st' = darwin st \<and> native st' = native st \<and> provider_calls st' = provider_calls st
      \<and> (\<exists>es. emitted st' = emitted st @ es
            \<and> list_all (\<lambda>e. fst e = initialization_complete \<or> fst e = initialization_error) es))"

text \<open>The native module the service holds once initialization is over.\<close>

definition module_after_init :: "'p service \<Rightarrow> 'p provider option" where
  "module_after_init st =
     (case init st of
        Initialized \<Rightarrow> nativeModule st
      | Loading n t load \<Rightarrow> (case load of Returns m \<Rightarrow> Some m | Throws e \<Rightarrow> None))"

text \<open>A call adds events to the log, none of them a \<^verbatim>\<open>cache:*\<close> event.\<close>

definition adds_no_cache_event :: "'p service \<Rightarrow> 'p service \<Rightarrow> bool" where
  "adds_no_cache_event st st' =
     (\<exists>es. emitted st' = emitted st @ es \<and> list_all (\<lambda>e. \<not> is_cache_event (fst e)) es)"

section \<open>Concrete handlers and emitters\<close>

text \<open>
  Handlers that re-register themselves: called for any payload, each one does
  \<^verbatim>\<open>emitter.once('initialization:complete', itself)\<close> and returns.
\<close>

definition rereg_handlers :: "nat handlers" where
  "rereg_handlers h d reg = (Returns (), once_on initialization_complete h reg)"

text \<open>
  Handlers that unregister another one: called for any payload, each one does
  \<^verbatim>\<open>emitter.off('initialization:complete', h99)\<close> and returns.
\<close>

definition unregistering_handlers :: "nat handlers" where
  "unregistering_handlers h d reg = (Returns (), off initialization_complete 99 reg)"

text \<open>Handlers that leave the registry alone; handler 3 throws \<^verbatim>\<open>new Error('boom')\<close>.\<close>

definition quiet_handlers :: "nat handlers" where
  "quiet_handlers h d reg = (if h = 3 then Throws (JsError ''boom'') else Returns (), reg)"

text \<open>
  \<^verbatim>\<open>on('initialization:complete', h3); once('initialization:complete', h7)\<close> on a new
  emitter, and \<^verbatim>\<open>once('initialization:complete', h7); once('initialization:complete', h8)\<close>.
\<close>

definition emitter_3_7 :: "nat emitter" where
  "emitter_3_7 =
     new_emitter\<lparr>listeners := once_on initialization_complete 7 (on initialization_complete 3 [])\<rparr>"

definition emitter_7_8 :: "nat emitter" where
  "emitter_7_8 =
     new_emitter\<lparr>listeners := once_on initialization_complete 8 (once_on initialization_complete 7 [])\<rparr>"

definition emitter_0 :: "nat emitter" where
  "emitter_0 = new_emitter\<lparr>listeners := once_on initialization_complete 0 []\<rparr>"

section \<open>Concrete platforms, modules and services\<close>

definition no_handlers :: "payload handlers" where
  "no_handlers h d reg = (Returns (), reg)"

definition some_device :: DeviceData where
  "some_device =
     \<lparr>biometryType = ''TouchID'', hardwareUUID = ''0000-UUID'', deviceSerial = ''C02XYZ'',
      deviceModel = ''MacBookPro18,1'', systemVersion = ''Version 14.0''\<rparr>"

definition some_info :: BiometricInfo where
  "some_info =
     \<lparr>biometricsAvailable = True, info_biometryType = ''TouchID'', info_deviceSerial = ''C02XYZ'',
      info_deviceModel = ''MacBookPro18,1'', info_systemVersion = ''Version 14.0'',
      info_hardwareUUID = ''0000-UUID''\<rparr>"

text \<open>
  A Mac on which the user approves every prompt after a second and a half, and whose
  property lists keep the whole seconds of a date.
\<close>

definition approving_platform :: la_platform where
  "approving_platform =
     \<lparr>device = some_device, evaluatePolicy = (\<lambda>reason now. la_success 1500),
      plist_date = (\<lambda>t. of_int \<lfloor>t\<rfloor>),
      macOS_10_12_2 = True, macOS_10_13_2 = True, canEvaluateBiometrics = True,
      canEvaluateOwner = True\<rparr>"

text \<open>
  A module whose \<^verbatim>\<open>promptTouchID\<close> resolves with \<^verbatim>\<open>{ success: false, error: 'Authentication failed' }\<close>,
  and modules whose \<^verbatim>\<open>canPromptTouchID\<close> throws the string \<^verbatim>\<open>'boom'\<close>, or
  \<^verbatim>\<open>new Error('LAContext failed')\<close>.
\<close>

definition declining_provider :: "unit provider" where
  "declining_provider =
     \<lparr>canPromptTouchID = Some (\<lambda>now p. (Returns True, p, 0)),
      promptTouchID = Some (\<lambda>args now p.
        (Returns \<lparr>success = False, error = Some ''Authentication failed'', data = None\<rparr>, p, 2000)),
      getBiometricInfo = None\<rparr>"

definition string_throwing_provider :: "unit provider" where
  "string_throwing_provider =
     \<lparr>canPromptTouchID = Some (\<lambda>now p. (Throws (JsOther ''boom''), p, 0)),
      promptTouchID = None, getBiometricInfo = None\<rparr>"

definition error_throwing_provider :: "unit provider" where
  "error_throwing_provider =
     \<lparr>canPromptTouchID = Some (\<lambda>now p. (Throws (JsError ''LAContext failed''), p, 0)),
      promptTouchID = None, getBiometricInfo = None\<rparr>"

text \<open>
  Services constructed at clock 0, with no listener: on macOS with the addon still loading
  (its import settles 25 ms after the constructor); on macOS after the addon has loaded, or
  has failed to load, at once, and one timer of \<^verbatim>\<open>waitForInit\<close> has passed; and on another
  platform.
\<close>

definition loading_service :: "'p provider \<Rightarrow> 'p \<Rightarrow> 'p service" where
  "loading_service m p = snd (new_service no_handlers True 25 (Returns m) p 0)"

definition mac_service :: "'p provider \<Rightarrow> 'p \<Rightarrow> 'p service" where
  "mac_service m p = waitForInit no_handlers (snd (new_service no_handlers True 0 (Returns m) p 0))"

definition unloaded_service :: "'p \<Rightarrow> 'p service" where
  "unloaded_service p =
     waitForInit no_handlers
       (snd (new_service no_handlers True 0 (Throws (JsError ''Cannot find module'')) p 0))"

definition other_platform_service :: "'p \<Rightarrow> 'p service" where
  "other_platform_service p =
     snd (new_service no_handlers False 0 (Throws (JsError ''Cannot find module'')) p 0)"

definition options_default :: TouchIDOptions where
  "options_default = \<lparr>opt_reason = None, opt_method = None, opt_ttl = None\<rparr>"

definition options_direct :: TouchIDOptions where
  "options_direct = \<lparr>opt_reason = None, opt_method = Some direct, opt_ttl = None\<rparr>"

definition options_ttl_500 :: TouchIDOptions where
  "options_ttl_500 = \<lparr>opt_reason = None, opt_method = None, opt_ttl = Some (Num 500)\<rparr>"


definition options_cached_30000 :: TouchIDOptions where
  "options_cached_30000 = \<lparr>opt_reason = None, opt_method = Some cached, opt_ttl = Some (Num 30000)\<rparr>"

text \<open>
  The shipped module on that Mac, no cache file yet: the state after a first
  \<^verbatim>\<open>authenticate({ method: 'cached', ttl: 30000 })\<close>, and the same state five seconds later,
  when a second such call is made.
\<close>

definition shipped_service :: "native_state service" where
  "shipped_service = mac_service (touchid_native approving_platform some_info) (native_loaded None)"

definition after_first_cached :: "native_state service" where
  "after_first_cached = snd (authenticate no_handlers options_cached_30000 shipped_service)"

definition before_second_cached :: "native_state service" where
  "before_second_cached = after_first_cached\<lparr>clock := clock after_first_cached + 5000\<rparr>"

text \<open>A Mac on which the user cancels every prompt after 300 ms.\<close>

definition cancelling_platform :: la_platform where
  "cancelling_platform =
     \<lparr>device = some_device, evaluatePolicy = (\<lambda>reason now. la_error ''Canceled by user.'' 300),
      plist_date = (\<lambda>t. of_int \<lfloor>t\<rfloor>),
      macOS_10_12_2 = True, macOS_10_13_2 = True, canEvaluateBiometrics = True,
      canEvaluateOwner = True\<rparr>"

section \<open>Dispatch: what every emit does\<close>

lemma step_returns:
  "fst (try_catch (call_handler H event d l) (console_error event) E) = Returns ()"
  by (simp add: try_catch_def call_handler_def console_error_def split: prod.splits outcome.splits)

lemma step_invoked:
  "invoked (snd (try_catch (call_handler H event d l) (console_error event) E)) =
     invoked E @ [(handler l, event, d)]"
  by (simp add: try_catch_def call_handler_def console_error_def split: prod.splits outcome.splits)

lemma step_listeners:
  "listeners (snd (try_catch (call_handler H event d l) (console_error event) E)) =
     snd (H (handler l) d (listeners E))"
  by (simp add: try_catch_def call_handler_def console_error_def split: prod.splits outcome.splits)

lemma dispatch_returns:
  "fst (for_of (\<lambda>l. try_catch (call_handler H event d l) (console_error event)) ls E) = Returns ()"
proof (induction ls arbitrary: E)
  case Nil
  show ?case by simp
next
  case (Cons l ls)
  obtain r E' where st: "try_catch (call_handler H event d l) (console_error event) E = (r, E')"
    by (cases "try_catch (call_handler H event d l) (console_error event) E")
  with step_returns [of H event d l E] have "r = Returns ()" by simp
  with st Cons.IH [of E'] show ?case by simp
qed

lemma dispatch_invoked:
  "invoked (snd (for_of (\<lambda>l. try_catch (call_handler H event d l) (console_error event)) ls E)) =
     invoked E @ map (\<lambda>l. (handler l, event, d)) ls"
proof (induction ls arbitrary: E)
  case Nil
  show ?case by simp
next
  case (Cons l ls)
  obtain r E' where st: "try_catch (call_handler H event d l) (console_error event) E = (r, E')"
    by (cases "try_catch (call_handler H event d l) (console_error event) E")
  with step_returns [of H event d l E] have r: "r = Returns ()" by simp
  from st step_invoked [of H event d l E] have "invoked E' = invoked E @ [(handler l, event, d)]"
    by simp
  with st r Cons.IH [of E'] show ?case by simp
qed

lemma dispatch_preserves:
  assumes inv: "\<And>l reg. l \<in> set ls \<Longrightarrow> P reg \<Longrightarrow> P (snd (H (handler l) d reg))"
    and start: "P (listeners E)"
  shows "P (listeners (snd (for_of (\<lambda>l. try_catch (call_handler H event d l) (console_error event)) ls E)))"
  using assms
proof (induction ls arbitrary: E)
  case Nil
  then show ?case by simp
next
  case (Cons l ls)
  obtain r E' where st: "try_catch (call_handler H event d l) (console_error event) E = (r, E')"
    by (cases "try_catch (call_handler H event d l) (console_error event) E")
  with step_returns [of H event d l E] have r: "r = Returns ()" by simp
  from st step_listeners [of H event d l E] have "listeners E' = snd (H (handler l) d (listeners E))"
    by simp
  with Cons.prems have "P (listeners E')" by simp
  moreover have "\<And>l' reg. l' \<in> set ls \<Longrightarrow> P reg \<Longrightarrow> P (snd (H (handler l') d reg))"
    using Cons.prems(1) by simp
  ultimately have "P (listeners (snd (for_of (\<lambda>l. try_catch (call_handler H event d l) (console_error event)) ls E')))"
    by (rule Cons.IH [rotated])
  with st r show ?case by simp
qed

lemma emit_returns: "fst (emit H event d E) = Returns ()"
  by (simp add: emit_def dispatch_returns split: option.splits)

lemma emit_invoked:
  "invoked (snd (emit H event d E)) =
     invoked E @ map (\<lambda>l. (handler l, event, d)) (listeners_of (listeners E) event)"
  by (auto simp: emit_def listeners_of_def dispatch_invoked emit_prune_def Let_def split:
      option.splits)

lemma listeners_of_update [simp]:
  "listeners_of (AList.update event ls reg) event' = (if event' = event then ls else listeners_of reg event')"
  by (simp add: listeners_of_def update_conv')

lemma emit_nonempty:
  "listeners_of (listeners E) event \<noteq> [] \<Longrightarrow>
   emit H event d E =
     for_of (\<lambda>l. try_catch (call_handler H event d l) (console_error event))
       (listeners_of (listeners E) event)
       (emit_prune event (listeners_of (listeners E) event) E)"
  by (auto simp: emit_def listeners_of_def split: option.splits)

lemma emit_empty:
  "listeners_of (listeners E) event = [] \<Longrightarrow> emit H event d E = (Returns (), E)"
  by (auto simp: emit_def listeners_of_def split: option.splits)

lemma emit_prune_listeners:
  "listeners_of (listeners (emit_prune event ls E)) event = filter (\<lambda>l. \<not> once l) ls"
  by (simp add: emit_prune_def)

lemma times_invoked_emit:
  "times_invoked h event (snd (emit H event d E)) =
     times_invoked h event E + length (filter (\<lambda>l. handler l = h) (listeners_of (listeners E) event))"
  by (simp add: times_invoked_def emit_invoked filter_map comp_def)

lemma emit_keeps_absent:
  assumes only_once: "\<forall>l\<in>set (listeners_of (listeners E) event). handler l = h \<longrightarrow> once l"
    and never_added: "\<forall>g d reg. h \<notin> handler ` set (listeners_of reg event) \<longrightarrow>
           h \<notin> handler ` set (listeners_of (snd (H g d reg)) event)"
  shows "h \<notin> handler ` set (listeners_of (listeners (snd (emit H event d E))) event)"
proof (cases "listeners_of (listeners E) event = []")
  case True
  then show ?thesis by (simp add: emit_empty)
next
  case False
  let ?P = "\<lambda>reg. h \<notin> handler ` set (listeners_of reg event)"
  have "?P (listeners (emit_prune event (listeners_of (listeners E) event) E))"
    using only_once by (auto simp: emit_prune_listeners)
  moreover have "\<And>l reg. l \<in> set (listeners_of (listeners E) event) \<Longrightarrow> ?P reg \<Longrightarrow>
      ?P (snd (H (handler l) d reg))"
    using never_added by blast
  ultimately show ?thesis
    unfolding emit_nonempty [OF False]
    by (rule dispatch_preserves [where P = ?P, rotated])
qed

lemma emitter_3_7_listeners:
  "listeners emitter_3_7 =
     [(initialization_complete, [\<lparr>handler = 3, once = False\<rparr>, \<lparr>handler = 7, once = True\<rparr>])]"
  by (simp add: emitter_3_7_def new_emitter_def on_def once_on_def)

lemma emitter_7_8_listeners:
  "listeners emitter_7_8 =
     [(initialization_complete, [\<lparr>handler = 7, once = True\<rparr>, \<lparr>handler = 8, once = True\<rparr>])]"
  by (simp add: emitter_7_8_def new_emitter_def on_def once_on_def)

lemma emitter_0_listeners:
  "listeners emitter_0 = [(initialization_complete, [\<lparr>handler = 0, once = True\<rparr>])]"
  by (simp add: emitter_0_def new_emitter_def on_def once_on_def)

lemma quiet_inert: "inert quiet_handlers h"
  by (simp add: inert_def quiet_handlers_def)

lemma throwing_handler_example:
  "emit quiet_handlers initialization_complete 1 emitter_3_7 =
     (Returns (),
      \<lparr>listeners = [(initialization_complete, [\<lparr>handler = 3, once = False\<rparr>])],
       invoked = [(3, initialization_complete, 1), (7, initialization_complete, 1)],
       console_errors = [(initialization_complete, JsError ''boom'')]\<rparr>)"
  by (simp add: emit_def emitter_3_7_listeners emit_prune_def try_catch_def call_handler_def
      quiet_handlers_def console_error_def emitter_3_7_def new_emitter_def on_def once_on_def)

lemma emit_inert_listeners:
  assumes "\<forall>l\<in>set (listeners_of (listeners E) event). inert H (handler l)"
    and "listeners_of (listeners E) event \<noteq> []"
  shows "listeners (snd (emit H event d E)) =
     AList.update event (filter (\<lambda>l. \<not> once l) (listeners_of (listeners E) event)) (listeners E)"
proof -
  let ?reg = "AList.update event (filter (\<lambda>l. \<not> once l) (listeners_of (listeners E) event)) (listeners E)"
  let ?P = "\<lambda>reg. reg = ?reg"
  have "?P (listeners (emit_prune event (listeners_of (listeners E) event) E))"
    by (simp add: emit_prune_def)
  moreover have "\<And>l reg. l \<in> set (listeners_of (listeners E) event) \<Longrightarrow> ?P reg \<Longrightarrow>
      ?P (snd (H (handler l) d reg))"
    using assms(1) by (simp add: inert_def)
  ultimately show ?thesis
    unfolding emit_nonempty [OF assms(2)]
    by (rule dispatch_preserves [where P = ?P, rotated])
qed

lemma inert_leaves_kind: "inert H h \<Longrightarrow> leaves_kind H event h"
  by (simp add: inert_def leaves_kind_def)

lemma emit_emptied_entry:
  assumes "\<forall>l\<in>set (listeners_of (listeners E) event). leaves_kind H event (handler l)"
    and "listeners_of (listeners E) event \<noteq> []"
    and "\<forall>l\<in>set (listeners_of (listeners E) event). once l"
  shows "map_of (listeners (snd (emit H event d E))) event = Some []"
proof -
  let ?P = "\<lambda>reg. map_of reg event = Some []"
  have "filter (\<lambda>l. \<not> once l) (listeners_of (listeners E) event) = []"
    using assms(3) by (simp add: filter_empty_conv)
  then have "?P (listeners (emit_prune event (listeners_of (listeners E) event) E))"
    by (simp add: emit_prune_def update_conv')
  moreover have "\<And>l reg. l \<in> set (listeners_of (listeners E) event) \<Longrightarrow> ?P reg \<Longrightarrow>
      ?P (snd (H (handler l) d reg))"
    using assms(1) by (simp add: leaves_kind_def)
  ultimately show ?thesis
    unfolding emit_nonempty [OF assms(2)]
    by (rule dispatch_preserves [where P = ?P, rotated])
qed

lemma removeAll_other_keeps:
  "ev' \<noteq> event \<Longrightarrow> map_of (removeAllListeners (Some ev') reg) event = map_of reg event"
  by (simp add: removeAllListeners_def delete_conv')

lemma in_eventNames: "event \<in> set (eventNames reg) \<longleftrightarrow> map_of reg event \<noteq> None"
  by (simp add: eventNames_def map_of_eq_None_iff)

lemma on_keeps: "map_of reg event \<noteq> None \<Longrightarrow> map_of (on ev' h reg) event \<noteq> None"
  by (auto simp: on_def Let_def update_conv' split: option.splits)

lemma once_on_keeps: "map_of reg event \<noteq> None \<Longrightarrow> map_of (once_on ev' h reg) event \<noteq> None"
  by (auto simp: once_on_def Let_def update_conv' split: option.splits)

lemma off_other_keeps: "ev' \<noteq> event \<Longrightarrow> map_of (off ev' h reg) event = map_of reg event"
  by (auto simp: off_def Let_def update_conv' delete_conv' split: option.splits)

lemma off_empty_entry: "map_of reg event = Some [] \<Longrightarrow> map_of (off event h reg) event = None"
  by (simp add: off_def delete_conv')

section \<open>The native cache\<close>





lemma Int32Value_in_range:
  "1000 \<le> x \<Longrightarrow> x \<le> 300000 \<Longrightarrow> Int32Value (Num x) = \<lfloor>x\<rfloor>"
proof -
  assume a: "1000 \<le> x" "x \<le> 300000"
  then have "1000 \<le> \<lfloor>x\<rfloor>" "\<lfloor>x\<rfloor> \<le> 300000"
    by (simp_all add: le_floor_iff floor_le_iff)
  with a show ?thesis
    by (simp add: Int32Value_def)
qed

lemma no_entry_not_valid:
  "cache_file ns = None \<Longrightarrow> lastAuthTime ns = None \<Longrightarrow> \<not> cacheValid ttl now ns"
  by (simp add: cacheValid_def checkCache_def loadCache_def)

lemma direct_request_never_cached:
  "fst (checkCache direct ttl now ns) = False"
  by (simp add: checkCache_def)

section \<open>The service: emitting, waiting for initialization\<close>

lemma waitForInit_Initialized: "init st = Initialized \<Longrightarrow> waitForInit H st = st"
  by (subst waitForInit.simps) simp

lemma waitForInit_Loading:
  "init st = Loading n t load \<Longrightarrow> waitForInit H st = waitForInit H (timer_turn H st)"
  by (subst waitForInit.simps) simp

lemma svc_emit_eq:
  "svc_emit H event p st =
     (Returns (), st\<lparr>eventEmitter := snd (emit H event p (eventEmitter st)),
                    emitted := emitted st @ [(event, p)]\<rparr>)"
  using emit_returns [of H event p "eventEmitter st"]
  by (cases "emit H event p (eventEmitter st)") (simp add: svc_emit_def)

lemma bind_svc_emit [simp]:
  "bind_prog (svc_emit H event p) f st =
     f () (st\<lparr>eventEmitter := snd (emit H event p (eventEmitter st)),
              emitted := emitted st @ [(event, p)]\<rparr>)"
  by (simp add: bind_prog_def svc_emit_eq)

lemma bind_svc_emit_fun [simp]:
  "bind_prog (\<lambda>s. svc_emit H event (g s) s) f st =
     f () (st\<lparr>eventEmitter := snd (emit H event (g st) (eventEmitter st)),
              emitted := emitted st @ [(event, g st)]\<rparr>)"
  by (simp add: bind_prog_def svc_emit_eq)

lemma bind_return [simp]: "bind_prog (return_prog a) f st = f a st"
  by (simp add: bind_prog_def return_prog_def)

lemma bind_throw [simp]: "bind_prog (throw_prog e) f st = (Throws e, st)"
  by (simp add: bind_prog_def throw_prog_def)

lemma try_catch_throw [simp]: "try_catch (throw_prog e) h st = h e st"
  by (simp add: try_catch_def throw_prog_def)

lemma init_resume_eq:
  "init_resume H startTime load st =
     (case load of
        Returns m \<Rightarrow>
          svc_emit H initialization_complete (InitComplete (clock st) (clock st - startTime))
            (st\<lparr>nativeModule := Some m, init := Initialized\<rparr>)
      | Throws e \<Rightarrow>
          svc_emit H initialization_error
            (InitError (clock st) (message_or ''Unknown initialization error'' e))
            (st\<lparr>nativeModule := None, init := Initialized\<rparr>))"
  by (simp add: init_resume_def try_catch_def bind_prog_def svc_emit_eq split: outcome.splits)

lemma init_step_refl: "init_step st st"
  by (simp add: init_step_def)

lemma init_step_trans: "init_step a b \<Longrightarrow> init_step b c \<Longrightarrow> init_step a c"
  by (auto simp: init_step_def)

lemma init_step_timer: "init_step st (timer_turn H st)"
  by (auto simp: init_step_def timer_turn_def Let_def init_resume_eq svc_emit_eq
      split: init_state.splits nat.splits outcome.splits)

lemma waitForInit_step: "init_step st (waitForInit H st)"
proof (induction H st rule: waitForInit.induct)
  case (1 H st)
  show ?case
  proof (cases "init st")
    case Initialized
    then show ?thesis by (simp add: init_step_refl waitForInit_Initialized)
  next
    case (Loading n t load)
    with "1.IH" have "init_step (timer_turn H st) (waitForInit H (timer_turn H st))" by simp
    with init_step_timer [of st H] have "init_step st (waitForInit H (timer_turn H st))"
      by (rule init_step_trans)
    with Loading show ?thesis by (simp add: waitForInit_Loading)
  qed
qed

lemma waitForInit_initialized: "init (waitForInit H st) = Initialized"
proof (induction H st rule: waitForInit.induct)
  case (1 H st)
  show ?case
  proof (cases "init st")
    case Initialized
    then show ?thesis by (simp add: waitForInit_Initialized)
  next
    case (Loading n t load)
    with "1.IH" show ?thesis by (simp add: waitForInit_Loading)
  qed
qed

section \<open>The service: concrete states, and what the body of authenticate leaves\<close>

lemma new_emitter_emit [simp]: "emit H event p new_emitter = (Returns (), new_emitter)"
  by (simp add: emit_def new_emitter_def)

lemma loading_service_eq:
  "loading_service m p =
     \<lparr>darwin = True, nativeModule = None, init = Loading 25 0 (Returns m),
      eventEmitter = new_emitter, emitted = [(initialization_start, InitStart 0)],
      provider_calls = [], native = p, clock = 0\<rparr>"
  by (simp add: loading_service_def new_service_def)

lemma mac_service_eq:
  "mac_service m p =
     \<lparr>darwin = True, nativeModule = Some m, init = Initialized,
      eventEmitter = new_emitter,
      emitted = [(initialization_start, InitStart 0), (initialization_complete, InitComplete 0 0)],
      provider_calls = [], native = p, clock = 10\<rparr>"
  by (simp add: mac_service_def new_service_def timer_turn_def init_resume_eq svc_emit_eq
      waitForInit_Loading waitForInit_Initialized)

lemma unloaded_service_eq:
  "unloaded_service p =
     \<lparr>darwin = True, nativeModule = None, init = Initialized,
      eventEmitter = new_emitter,
      emitted = [(initialization_start, InitStart 0),
                 (initialization_error, InitError 0 ''Cannot find module'')],
      provider_calls = [], native = p, clock = 10\<rparr>"
  by (simp add: unloaded_service_def new_service_def timer_turn_def init_resume_eq svc_emit_eq
      message_or_def waitForInit_Loading waitForInit_Initialized)

lemma other_platform_service_eq:
  "other_platform_service p =
     \<lparr>darwin = False, nativeModule = None, init = Initialized,
      eventEmitter = new_emitter,
      emitted = [(initialization_start, InitStart 0),
                 (initialization_error, InitError 0 ''Touch ID is only available on macOS'')],
      provider_calls = [], native = p, clock = 0\<rparr>"
  by (simp add: other_platform_service_def new_service_def svc_emit_eq)

lemma call_native_eq:
  "f (clock st) (native st) = (r, p', dt) \<Longrightarrow>
   call_native c f st =
     (r, st\<lparr>native := p', clock := clock st + int dt, provider_calls := provider_calls st @ [c]\<rparr>)"
  by (simp add: call_native_def)

lemma floor_151_100: "\<lfloor>151 / 100 :: rat\<rfloor> = 1"
  by (rule floor_unique) simp_all

lemma first_cached_result:
  "authenticate no_handlers options_cached_30000 shipped_service =
     (Returns \<lparr>success = True, error = None, data = Some some_device\<rparr>,
      \<lparr>darwin = True, nativeModule = Some (touchid_native approving_platform some_info),
       init = Initialized, eventEmitter = new_emitter,
       emitted = [(initialization_start, InitStart 0),
                  (initialization_complete, InitComplete 0 0),
                  (authentication_start, AuthStart 10 cached ''Authenticate with Touch ID''),
                  (cache_created, CacheCreated 1510 (Num 30000)),
                  (authentication_success, AuthSuccess 1510 cached 1500 (Some some_device))],
       provider_calls = [PromptCall \<lparr>arg_reason = ''Authenticate with Touch ID'',
                                       arg_method = cached, arg_ttl = Num 30000\<rparr>],
       native = \<lparr>lastAuthTime = Some (151 / 100), isCached = True, cacheTTL = 30,
                  cache_file = Some \<lparr>plist_lastAuthTime = 1, plist_isCached = True,
                                       plist_cacheTTL = 30\<rparr>\<rparr>,
       clock = 1510\<rparr>)"
  by (simp add: Let_def waitForInit_Initialized authenticate_def method_or_default_def
      reason_or_default_def ttl_or_default_def options_cached_30000_def shipped_service_def
      mac_service_eq validateOptions_def authenticate_try_def touchid_native_def call_native_def
      bind_prog_def try_catch_def svc_emit_eq return_prog_def PromptTouchID_def loadCache_def
      checkCache_def updateCache_def saveCache_def native_loaded_def approving_platform_def
      Int32Value_def truthy_def js_less_def floor_151_100
      seconds_def)

lemma timer_turn_module:
  "init st = Loading n t load \<Longrightarrow> module_after_init (timer_turn H st) = module_after_init st"
  by (cases n; cases load)
     (simp_all add: timer_turn_def module_after_init_def init_resume_eq svc_emit_eq Let_def)

lemma waitForInit_module: "nativeModule (waitForInit H st) = module_after_init st"
proof (induction H st rule: waitForInit.induct)
  case (1 H st)
  show ?case
  proof (cases "init st")
    case Initialized
    then show ?thesis by (simp add: module_after_init_def waitForInit_Initialized)
  next
    case (Loading n t load)
    with "1.IH" timer_turn_module [OF Loading, of H] show ?thesis
      by (simp add: waitForInit_Loading)
  qed
qed

lemma module_after_init_emit [simp]:
  "module_after_init (st\<lparr>eventEmitter := E, emitted := es\<rparr>) = module_after_init st"
  by (simp add: module_after_init_def split: init_state.splits)

lemma adds_no_cache_event_refl: "adds_no_cache_event st st"
  by (simp add: adds_no_cache_event_def)

lemma adds_no_cache_event_trans:
  "adds_no_cache_event a b \<Longrightarrow> adds_no_cache_event b c \<Longrightarrow> adds_no_cache_event a c"
  by (auto simp: adds_no_cache_event_def)

lemma init_step_no_cache: "init_step st st' \<Longrightarrow> adds_no_cache_event st st'"
  by (force simp: init_step_def adds_no_cache_event_def is_cache_event_def list_all_iff)

lemma new_events_no_cache:
  "adds_no_cache_event st st' \<Longrightarrow> list_all (\<lambda>e. \<not> is_cache_event (fst e)) (new_events st st')"
  by (auto simp: adds_no_cache_event_def new_events_def)

lemma authenticate_catch_frame:
  "\<exists>msg s'. authenticate_catch H t method e s =
              (Returns \<lparr>success = False, error = Some msg, data = None\<rparr>, s')
     \<and> init s' = init s \<and> provider_calls s' = provider_calls s \<and> adds_no_cache_event s s'"
  by (simp add: authenticate_catch_def Let_def adds_no_cache_event_def is_cache_event_def
      return_prog_def bind_prog_def svc_emit_eq)

lemma authenticate_try_missing:
  "promptTouchID m = None \<Longrightarrow>
   authenticate_try H options t method reason m s =
     (Throws (JsError ''promptTouchID function not available''), s)"
  by (simp add: authenticate_try_def throw_prog_def)

lemma authenticate_try_rejects:
  assumes "promptTouchID m = Some f"
    and "f \<lparr>arg_reason = reason, arg_method = method,
            arg_ttl = (ttl_or_default options)\<rparr>
           (clock s) (native s) = (Throws e, p', dt)"
  shows "fst (authenticate_try H options t method reason m s) = Throws e
     \<and> init (snd (authenticate_try H options t method reason m s)) = init s
     \<and> emitted (snd (authenticate_try H options t method reason m s)) = emitted s
     \<and> provider_calls (snd (authenticate_try H options t method reason m s)) =
         provider_calls s @
         [PromptCall \<lparr>arg_reason = reason, arg_method = method,
                      arg_ttl = ttl_or_default options\<rparr>]"
  using assms by (simp add: authenticate_try_def Let_def call_native_def bind_prog_def)

lemma authenticate_try_resolves:
  assumes "promptTouchID m = Some f"
    and "f \<lparr>arg_reason = reason, arg_method = method,
            arg_ttl = (ttl_or_default options)\<rparr>
           (clock s) (native s) = (Returns result, p', dt)"
  shows "fst (authenticate_try H options t method reason m s) =
       Returns \<lparr>success = True, error = None, data = data result\<rparr>
     \<and> init (snd (authenticate_try H options t method reason m s)) = init s
     \<and> emitted (snd (authenticate_try H options t method reason m s)) =
         emitted s @
         (if success result then
            (if method = cached then
               [(cache_created, CacheCreated (clock s + int dt)
                  (ttl_or_default options))]
             else []) @
            [(authentication_success,
              AuthSuccess (clock s + int dt) method (clock s + int dt - t) (data result))]
          else
            [(authentication_failure,
              AuthFailure (clock s + int dt) method
                (case error result of None \<Rightarrow> ''Unknown error''
                 | Some e \<Rightarrow> if e = [] then ''Unknown error'' else e)
                (clock s + int dt - t))])
     \<and> provider_calls (snd (authenticate_try H options t method reason m s)) =
         provider_calls s @
         [PromptCall \<lparr>arg_reason = reason, arg_method = method,
                      arg_ttl = ttl_or_default options\<rparr>]"
  using assms
  by (simp add: authenticate_try_def Let_def call_native_def bind_prog_def svc_emit_eq
      return_prog_def)

lemma authenticate_try_frame:
  "init (snd (authenticate_try H options t method reason m s)) = init s
   \<and> (method = direct \<longrightarrow> adds_no_cache_event s (snd (authenticate_try H options t method reason m s)))"
proof (cases "promptTouchID m")
  case None
  then show ?thesis by (simp add: authenticate_try_missing adds_no_cache_event_refl)
next
  case (Some f)
  let ?X = "authenticate_try H options t method reason m s"
  let ?c = "f \<lparr>arg_reason = reason, arg_method = method,
        arg_ttl = (ttl_or_default options)\<rparr>
       (clock s) (native s)"
  obtain r p' dt where call: "?c = (r, p', dt)"
    by (cases ?c) simp
  show ?thesis
  proof (cases r)
    case (Returns result)
    note res = authenticate_try_resolves [OF Some call [unfolded Returns], of H t]
    from res have i: "init (snd ?X) = init s" by (rule conjunct1 [OF conjunct2])
    from res have em: "\<exists>es. emitted (snd ?X) = emitted s @ es
        \<and> (method = direct \<longrightarrow> list_all (\<lambda>e. \<not> is_cache_event (fst e)) es)"
      by (simp add: is_cache_event_def)
    then have "method = direct \<longrightarrow> adds_no_cache_event s (snd ?X)"
      unfolding adds_no_cache_event_def by blast
    with i show ?thesis by (rule conjI)
  next
    case (Throws e)
    note rej = authenticate_try_rejects [OF Some call [unfolded Throws], of H t]
    from rej have i: "init (snd ?X) = init s" by (rule conjunct1 [OF conjunct2])
    from rej have "emitted (snd ?X) = emitted s @ []" by simp
    then have "adds_no_cache_event s (snd ?X)"
      unfolding adds_no_cache_event_def by (intro exI [of _ "[]"]) simp
    with i show ?thesis by blast
  qed
qed

lemma authenticate_body_frame:
  "\<exists>r s'. try_catch (authenticate_try H options t method reason m)
             (authenticate_catch H t method) s = (Returns r, s')
     \<and> init s' = init s \<and> (method = direct \<longrightarrow> adds_no_cache_event s s')"
proof (cases "authenticate_try H options t method reason m s")
  case (Pair r s1)
  from authenticate_try_frame [of H options t "method" reason m s]
  have s1: "init s1 = init s" "method = direct \<longrightarrow> adds_no_cache_event s s1"
    unfolding Pair by simp_all
  show ?thesis
  proof (cases r)
    case (Returns x)
    with Pair s1 show ?thesis by (simp add: try_catch_def)
  next
    case (Throws e)
    from authenticate_catch_frame [of H t "method" e s1] obtain msg s' where
      c: "authenticate_catch H t method e s1 =
            (Returns \<lparr>success = False, error = Some msg, data = None\<rparr>, s')"
        "init s' = init s1" "adds_no_cache_event s1 s'" by blast
    have tc: "try_catch (authenticate_try H options t method reason m)
             (authenticate_catch H t method) s =
            (Returns \<lparr>success = False, error = Some msg, data = None\<rparr>, s')"
      by (simp add: try_catch_def Pair Throws c(1))
    have "method = direct \<longrightarrow> adds_no_cache_event s s'"
      using s1(2) c(3) by (blast intro: adds_no_cache_event_trans)
    with tc c(2) s1(1) show ?thesis by simp
  qed
qed

section \<open>The public operations, case by case\<close>


lemma NaN_ttl_is_default:
  "opt_ttl options = Some NaN \<Longrightarrow>
   \<not> ttl_outside_range options \<and> ttl_or_default options = Num 30000"
  by (simp add: ttl_outside_range_def ttl_or_default_def truthy_def)

lemma authenticate_other_platform:
  assumes "\<not> darwin st"
  shows "fst (authenticate H options st) =
       Returns \<lparr>success = False, error = Some NOT_AVAILABLE, data = None\<rparr>
     \<and> emitted (snd (authenticate H options st)) =
         emitted st @
         [(authentication_start,
           AuthStart (clock st) (method_or_default options) (reason_or_default options)),
          (authentication_failure,
           AuthFailure (clock st) (method_or_default options) NOT_AVAILABLE 0)]
     \<and> init (snd (authenticate H options st)) = init st
     \<and> provider_calls (snd (authenticate H options st)) = provider_calls st"
  using assms by (simp add: authenticate_def Let_def return_prog_def)

lemma authenticate_invalid:
  assumes "darwin st" and "validateOptions options = Invalid msg"
  shows "fst (authenticate H options st) =
       Returns \<lparr>success = False, error = Some msg, data = None\<rparr>
     \<and> emitted (snd (authenticate H options st)) =
         emitted st @
         [(authentication_start,
           AuthStart (clock st) (method_or_default options) (reason_or_default options)),
          (authentication_failure, AuthFailure (clock st) (method_or_default options) msg 0)]
     \<and> init (snd (authenticate H options st)) = init st
     \<and> provider_calls (snd (authenticate H options st)) = provider_calls st"
  using assms by (simp add: authenticate_def Let_def return_prog_def)

lemma authenticate_valid:
  assumes "darwin st" and "validateOptions options = Valid"
  shows "authenticate H options st =
     (let st1 = st\<lparr>eventEmitter :=
                     snd (emit H authentication_start
                            (AuthStart (clock st) (method_or_default options)
                               (reason_or_default options))
                            (eventEmitter st)),
                   emitted := emitted st @
                     [(authentication_start,
                       AuthStart (clock st) (method_or_default options)
                         (reason_or_default options))]\<rparr>;
          st2 = waitForInit H st1
      in case nativeModule st2 of
           None \<Rightarrow>
             (Returns \<lparr>success = False, error = Some ''Touch ID native module not available'',
                       data = None\<rparr>,
              st2\<lparr>eventEmitter :=
                     snd (emit H authentication_failure
                            (AuthFailure (clock st2) (method_or_default options)
                               ''Touch ID native module not available'' (clock st2 - clock st))
                            (eventEmitter st2)),
                   emitted := emitted st2 @
                     [(authentication_failure,
                       AuthFailure (clock st2) (method_or_default options)
                         ''Touch ID native module not available'' (clock st2 - clock st))]\<rparr>)
         | Some m \<Rightarrow>
             try_catch
               (authenticate_try H options (clock st) (method_or_default options)
                  (reason_or_default options) m)
               (authenticate_catch H (clock st) (method_or_default options))
               st2)"
  using assms by (simp add: authenticate_def Let_def return_prog_def split: option.splits)

lemma authenticate_init:
  "(\<exists>r. fst (authenticate H options st) = Returns r)
   \<and> init (snd (authenticate H options st)) =
       (if darwin st \<and> validateOptions options = Valid then Initialized else init st)"
proof (cases "darwin st")
  case False
  then show ?thesis by (simp add: authenticate_other_platform)
next
  case True
  show ?thesis
  proof (cases "validateOptions options")
    case (Invalid msg)
    with True show ?thesis by (simp add: authenticate_invalid)
  next
    case Valid
    let ?st1 = "st\<lparr>eventEmitter :=
                     snd (emit H authentication_start
                            (AuthStart (clock st) (method_or_default options)
                               (reason_or_default options))
                            (eventEmitter st)),
                   emitted := emitted st @
                     [(authentication_start,
                       AuthStart (clock st) (method_or_default options)
                         (reason_or_default options))]\<rparr>"
    show ?thesis
    proof (cases "nativeModule (waitForInit H ?st1)")
      case None
      with True Valid show ?thesis
        by (simp add: authenticate_valid [OF True Valid] Let_def waitForInit_initialized)
    next
      case (Some m)
      from authenticate_body_frame [of H options "clock st" "method_or_default options"
          "reason_or_default options" m "waitForInit H ?st1"]
      obtain r s' where
        "try_catch
           (authenticate_try H options (clock st) (method_or_default options)
              (reason_or_default options) m)
           (authenticate_catch H (clock st) (method_or_default options))
           (waitForInit H ?st1) = (Returns r, s')"
        "init s' = init (waitForInit H ?st1)" by blast
      with True Valid Some show ?thesis
        by (simp add: authenticate_valid [OF True Valid] Let_def waitForInit_initialized)
    qed
  qed
qed


lemma authenticate_module_missing:
  assumes "darwin st" and "validateOptions options = Valid" and "module_after_init st = None"
  shows "fst (authenticate H options st) =
       Returns \<lparr>success = False, error = Some ''Touch ID native module not available'',
                data = None\<rparr>
     \<and> provider_calls (snd (authenticate H options st)) = provider_calls st"
proof -
  let ?st1 = "st\<lparr>eventEmitter :=
                     snd (emit H authentication_start
                            (AuthStart (clock st) (method_or_default options)
                               (reason_or_default options))
                            (eventEmitter st)),
                   emitted := emitted st @
                     [(authentication_start,
                       AuthStart (clock st) (method_or_default options)
                         (reason_or_default options))]\<rparr>"
  have none: "nativeModule (waitForInit H ?st1) = None"
    using assms(3) by (simp add: waitForInit_module)
  have "provider_calls (waitForInit H ?st1) = provider_calls ?st1"
    using waitForInit_step [of ?st1 H] by (simp add: init_step_def)
  with none show ?thesis
    by (simp add: authenticate_valid [OF assms(1,2)] Let_def)
qed

lemma authenticate_direct_no_cache:
  assumes "method_or_default options = direct"
  shows "adds_no_cache_event st (snd (authenticate H options st))"
proof (cases "darwin st")
  case False
  then show ?thesis
    by (simp add: adds_no_cache_event_def authenticate_other_platform is_cache_event_def)
next
  case True
  show ?thesis
  proof (cases "validateOptions options")
    case (Invalid msg)
    with True show ?thesis
      by (simp add: adds_no_cache_event_def authenticate_invalid is_cache_event_def)
  next
    case Valid
    let ?st1 = "st\<lparr>eventEmitter :=
                     snd (emit H authentication_start
                            (AuthStart (clock st) (method_or_default options)
                               (reason_or_default options))
                            (eventEmitter st)),
                   emitted := emitted st @
                     [(authentication_start,
                       AuthStart (clock st) (method_or_default options)
                         (reason_or_default options))]\<rparr>"
    have a: "adds_no_cache_event st ?st1"
      by (simp add: adds_no_cache_event_def is_cache_event_def)
    have b: "adds_no_cache_event ?st1 (waitForInit H ?st1)"
      by (rule init_step_no_cache [OF waitForInit_step])
    have c: "adds_no_cache_event (waitForInit H ?st1) (snd (authenticate H options st))"
    proof (cases "nativeModule (waitForInit H ?st1)")
      case None
      then show ?thesis
        by (simp add: authenticate_valid [OF True Valid] Let_def adds_no_cache_event_def
            is_cache_event_def)
    next
      case (Some m)
      from authenticate_body_frame [of H options "clock st" "method_or_default options"
          "reason_or_default options" m "waitForInit H ?st1"] assms
      obtain r s' where
        "try_catch
           (authenticate_try H options (clock st) (method_or_default options)
              (reason_or_default options) m)
           (authenticate_catch H (clock st) (method_or_default options))
           (waitForInit H ?st1) = (Returns r, s')"
        "adds_no_cache_event (waitForInit H ?st1) s'" by auto
      with Some show ?thesis
        by (simp add: authenticate_valid [OF True Valid] Let_def)
    qed
    from a b c show ?thesis by (blast intro: adds_no_cache_event_trans)
  qed
qed

lemma isAvailable_other_platform:
  "\<not> darwin st \<Longrightarrow>
   fst (isAvailable H st) = Returns False \<and> init (snd (isAvailable H st)) = init st
   \<and> provider_calls (snd (isAvailable H st)) = provider_calls st"
  by (simp add: isAvailable_def return_prog_def)

lemma isAvailable_module_missing:
  "darwin st \<Longrightarrow> module_after_init st = None \<Longrightarrow>
   fst (isAvailable H st) = Returns False \<and> init (snd (isAvailable H st)) = Initialized"
  by (simp add: isAvailable_def Let_def return_prog_def waitForInit_module waitForInit_initialized)

lemma isAvailable_function_missing:
  assumes "darwin st" and "nativeModule (waitForInit H st) = Some m" and "canPromptTouchID m = None"
  shows "fst (isAvailable H st) = Returns False
     \<and> init (snd (isAvailable H st)) = Initialized
     \<and> emitted (snd (isAvailable H st)) =
         emitted (waitForInit H st) @
         [(device_unavailable,
           DeviceUnavailable (clock (snd (isAvailable H st)))
             ''canPromptTouchID function not available'')]"
  using assms
  by (simp add: isAvailable_def Let_def return_prog_def waitForInit_initialized message_or_def)

lemma isAvailable_call:
  assumes "darwin st" and "nativeModule (waitForInit H st) = Some m"
    and "canPromptTouchID m = Some f"
    and "f (clock (waitForInit H st)) (native (waitForInit H st)) = (r, p', dt)"
  shows "fst (isAvailable H st) = Returns (case r of Returns b \<Rightarrow> b | Throws e \<Rightarrow> False)
     \<and> init (snd (isAvailable H st)) = Initialized
     \<and> emitted (snd (isAvailable H st)) =
         emitted (waitForInit H st) @
         [case r of
            Returns b \<Rightarrow>
              if b then (device_available, DeviceAvailable (clock (snd (isAvailable H st))) ''TouchID'')
              else (device_unavailable,
                    DeviceUnavailable (clock (snd (isAvailable H st)))
                      ''Touch ID not available on this device'')
          | Throws e \<Rightarrow>
              (device_unavailable,
               DeviceUnavailable (clock (snd (isAvailable H st))) (message_or ''Unknown error'' e))]"
  using assms
  by (cases r)
     (simp_all add: isAvailable_def Let_def return_prog_def waitForInit_initialized
      call_native_def bind_prog_def try_catch_def svc_emit_eq)

lemma isAvailable_init:
  "(\<exists>b. fst (isAvailable H st) = Returns b)
   \<and> init (snd (isAvailable H st)) = (if darwin st then Initialized else init st)"
proof (cases "darwin st")
  case False
  then show ?thesis by (auto simp: isAvailable_other_platform)
next
  case True
  show ?thesis
  proof (cases "nativeModule (waitForInit H st)")
    case None
    then have "module_after_init st = None" by (simp add: waitForInit_module)
    from isAvailable_module_missing [OF True this, of H] True show ?thesis by auto
  next
    case (Some m)
    show ?thesis
    proof (cases "canPromptTouchID m")
      case None
      with True Some show ?thesis by (auto simp: isAvailable_function_missing)
    next
      case (Some f)
      obtain r p' dt where "f (clock (waitForInit H st)) (native (waitForInit H st)) = (r, p', dt)"
        by (cases "f (clock (waitForInit H st)) (native (waitForInit H st))") simp
      from isAvailable_call [OF True \<open>nativeModule (waitForInit H st) = Some m\<close> Some this]
      show ?thesis using True by auto
    qed
  qed
qed

lemma getBiometricInfo_init:
  "(\<exists>i. fst (getBiometricInfo_op H st) = Returns i)
   \<and> init (snd (getBiometricInfo_op H st)) = (if darwin st then Initialized else init st)"
proof (cases "darwin st")
  case False
  then show ?thesis by (simp add: getBiometricInfo_op_def return_prog_def)
next
  case True
  show ?thesis
  proof (cases "nativeModule (waitForInit H st)")
    case None
    with True show ?thesis
      by (simp add: getBiometricInfo_op_def Let_def return_prog_def waitForInit_initialized)
  next
    case (Some m)
    show ?thesis
    proof (cases "getBiometricInfo m")
      case None
      with True Some show ?thesis
        by (simp add: getBiometricInfo_op_def Let_def return_prog_def waitForInit_initialized)
    next
      case (Some f)
      obtain r p' dt where "f (clock (waitForInit H st)) (native (waitForInit H st)) = (r, p', dt)"
        by (cases "f (clock (waitForInit H st)) (native (waitForInit H st))") simp
      with True \<open>nativeModule (waitForInit H st) = Some m\<close> Some show ?thesis
        by (cases r)
           (simp_all add: getBiometricInfo_op_def Let_def return_prog_def waitForInit_initialized
            call_native_def try_catch_def)
    qed
  qed
qed

lemma new_service_constructed: "constructed (snd (new_service H is_darwin n load p now))"
  by (simp add: constructed_def initialized_def new_service_def svc_emit_eq)

lemma authenticate_calls_provider:
  assumes "darwin st" and "validateOptions options = Valid"
    and "module_after_init st = Some m" and "promptTouchID m = Some f"
  shows "provider_calls (snd (authenticate H options st)) =
     provider_calls st @
     [PromptCall \<lparr>arg_reason = reason_or_default options, arg_method = method_or_default options,
                  arg_ttl = ttl_or_default options\<rparr>]"
proof -
  let ?st1 = "st\<lparr>eventEmitter :=
                     snd (emit H authentication_start
                            (AuthStart (clock st) (method_or_default options)
                               (reason_or_default options))
                            (eventEmitter st)),
                   emitted := emitted st @
                     [(authentication_start,
                       AuthStart (clock st) (method_or_default options)
                         (reason_or_default options))]\<rparr>"
  let ?st2 = "waitForInit H ?st1"
  let ?attempt = "authenticate_try H options (clock st) (method_or_default options)
                (reason_or_default options) m"
  let ?call = "PromptCall \<lparr>arg_reason = reason_or_default options,
      arg_method = method_or_default options, arg_ttl = ttl_or_default options\<rparr>"
  have m: "nativeModule ?st2 = Some m"
    using assms(3) by (simp add: waitForInit_module)
  have pc: "provider_calls ?st2 = provider_calls st"
    using waitForInit_step [of ?st1 H] by (simp add: init_step_def)
  have body: "authenticate H options st =
      try_catch ?attempt (authenticate_catch H (clock st) (method_or_default options)) ?st2"
    by (simp add: authenticate_valid [OF assms(1,2)] Let_def m)
  obtain r p' dt where call:
    "f \<lparr>arg_reason = reason_or_default options, arg_method = method_or_default options,
        arg_ttl = ttl_or_default options\<rparr> (clock ?st2) (native ?st2) = (r, p', dt)"
    by (cases "f \<lparr>arg_reason = reason_or_default options,
        arg_method = method_or_default options, arg_ttl = ttl_or_default options\<rparr>
        (clock ?st2) (native ?st2)") simp
  obtain r' s1 where t: "?attempt ?st2 = (r', s1)"
    by (cases "?attempt ?st2") simp
  show ?thesis
  proof (cases r)
    case (Returns result)
    from authenticate_try_resolves [OF assms(4) call [unfolded Returns], of H "clock st"]
    have "fst (?attempt ?st2) = Returns \<lparr>success = True, error = None, data = data result\<rparr>"
      and "provider_calls (snd (?attempt ?st2)) = provider_calls ?st2 @ [?call]" by simp_all
    with t pc show ?thesis by (simp add: body try_catch_def)
  next
    case (Throws e)
    from authenticate_try_rejects [OF assms(4) call [unfolded Throws], of H "clock st"]
    have r': "fst (?attempt ?st2) = Throws e"
      and c: "provider_calls (snd (?attempt ?st2)) = provider_calls ?st2 @ [?call]" by simp_all
    from authenticate_catch_frame [of H "clock st" "method_or_default options" e s1]
    obtain msg s' where
      "authenticate_catch H (clock st) (method_or_default options) e s1 =
         (Returns \<lparr>success = False, error = Some msg, data = None\<rparr>, s')"
      "provider_calls s' = provider_calls s1" by blast
    with t r' c pc show ?thesis by (simp add: body try_catch_def)
  qed
qed

section \<open>Claims about the event emitter\<close>

text \<open>
  Claim C6, as the code has it. Whatever the handlers do to the registry while they run
  (arbitrary \<open>H\<close>), one \<^verbatim>\<open>emit\<close> invokes exactly the listeners that were registered for the
  kind when it was called, each once and in registration order: listeners added or removed
  during the dispatch do not change the pass, and a once-handler that registers itself again
  while it runs is not invoked a second time in that pass. When the kind has listeners, the
  dispatch loop starts from the registry of \<^const>\<open>emit_prune\<close>, in which no once-listener of
  the kind is left. A handler \<open>h\<close> whose only registration for the kind is one \<^verbatim>\<open>once\<close>
  registration, and which no handler registers for the kind again, is invoked exactly once by
  the first \<^verbatim>\<open>emit\<close> and exactly once over two consecutive \<^verbatim>\<open>emit\<close>s of the kind.
\<close>

theorem once_semantics:
  "invoked (snd (emit H event d E)) =
      invoked E @ map (\<lambda>l. (handler l, event, d)) (listeners_of (listeners E) event)
   \<and> (listeners_of (listeners E) event \<noteq> [] \<longrightarrow>
        emit H event d E =
          for_of (\<lambda>l. try_catch (call_handler H event d l) (console_error event))
            (listeners_of (listeners E) event)
            (emit_prune event (listeners_of (listeners E) event) E)
        \<and> listeners_of (listeners (emit_prune event (listeners_of (listeners E) event) E)) event =
            filter (\<lambda>l. \<not> once l) (listeners_of (listeners E) event))
   \<and> (filter (\<lambda>l. handler l = h) (listeners_of (listeners E) event) = [\<lparr>handler = h, once = True\<rparr>]
        \<and> (\<forall>g d reg. h \<notin> handler ` set (listeners_of reg event) \<longrightarrow>
              h \<notin> handler ` set (listeners_of (snd (H g d reg)) event))
      \<longrightarrow> times_invoked h event (snd (emit H event d E)) = times_invoked h event E + 1
        \<and> times_invoked h event (snd (emit H event d' (snd (emit H event d E)))) =
            times_invoked h event E + 1)"
proof (intro conjI impI)
  show "invoked (snd (emit H event d E)) =
      invoked E @ map (\<lambda>l. (handler l, event, d)) (listeners_of (listeners E) event)"
    by (rule emit_invoked)
next
  assume "listeners_of (listeners E) event \<noteq> []"
  then show "emit H event d E =
          for_of (\<lambda>l. try_catch (call_handler H event d l) (console_error event))
            (listeners_of (listeners E) event)
            (emit_prune event (listeners_of (listeners E) event) E)"
    by (rule emit_nonempty)
next
  show "listeners_of (listeners (emit_prune event (listeners_of (listeners E) event) E)) event =
            filter (\<lambda>l. \<not> once l) (listeners_of (listeners E) event)"
    by (rule emit_prune_listeners)
next
  assume hyp: "filter (\<lambda>l. handler l = h) (listeners_of (listeners E) event) = [\<lparr>handler = h, once = True\<rparr>]
        \<and> (\<forall>g d reg. h \<notin> handler ` set (listeners_of reg event) \<longrightarrow>
              h \<notin> handler ` set (listeners_of (snd (H g d reg)) event))"
  then show first: "times_invoked h event (snd (emit H event d E)) = times_invoked h event E + 1"
    by (simp add: times_invoked_emit)
  have "\<forall>l\<in>set (listeners_of (listeners E) event). handler l = h \<longrightarrow> once l"
  proof (intro ballI impI)
    fix l assume "l \<in> set (listeners_of (listeners E) event)" "handler l = h"
    then have "l \<in> set (filter (\<lambda>l. handler l = h) (listeners_of (listeners E) event))" by simp
    with hyp show "once l" by simp
  qed
  with hyp have "h \<notin> handler ` set (listeners_of (listeners (snd (emit H event d E))) event)"
    by (intro emit_keeps_absent) blast+
  then have "filter (\<lambda>l. handler l = h) (listeners_of (listeners (snd (emit H event d E))) event) = []"
    by (auto simp: filter_empty_conv)
  with first show "times_invoked h event (snd (emit H event d' (snd (emit H event d E)))) =
            times_invoked h event E + 1"
    by (simp add: times_invoked_emit)
qed

text \<open>
  The amended claim at a concrete emitter: handler 3 (registered with \<^verbatim>\<open>on\<close>, and throwing)
  and handler 7 (registered with \<^verbatim>\<open>once\<close>); two emits invoke handler 7 once.
\<close>

theorem once_semantics_witness:
  "filter (\<lambda>l. handler l = 7) (listeners_of (listeners emitter_3_7) initialization_complete) =
      [\<lparr>handler = 7, once = True\<rparr>]
   \<and> times_invoked 7 initialization_complete
        (snd (emit quiet_handlers initialization_complete 2
           (snd (emit quiet_handlers initialization_complete 1 emitter_3_7)))) = 1"
proof -
  have a: "filter (\<lambda>l. handler l = 7) (listeners_of (listeners emitter_3_7) initialization_complete) =
      [\<lparr>handler = 7, once = True\<rparr>]"
    by (simp add: emitter_3_7_listeners listeners_of_def)
  have b: "\<forall>g d reg. 7 \<notin> handler ` set (listeners_of reg initialization_complete) \<longrightarrow>
      7 \<notin> handler ` set (listeners_of (snd (quiet_handlers g d reg)) initialization_complete)"
    by (simp add: quiet_handlers_def)
  have c: "times_invoked 7 initialization_complete emitter_3_7 = 0"
    by (simp add: times_invoked_def emitter_3_7_def new_emitter_def)
  from a b c once_semantics [of quiet_handlers initialization_complete 1 emitter_3_7 7 2]
  show ?thesis by simp
qed

text \<open>
  Claim C6 as stated fails for the very handler it mentions: a handler registered with
  \<^verbatim>\<open>once\<close> that registers itself again (with \<^verbatim>\<open>once\<close>) during its invocation is invoked by
  the first \<^verbatim>\<open>emit\<close> and again by the second, twice over two consecutive emits.
\<close>

theorem once_rereg_counterexample:
  "times_invoked 0 initialization_complete
     (snd (emit rereg_handlers initialization_complete 2
        (snd (emit rereg_handlers initialization_complete 1 emitter_0)))) = 2"
  by (simp add: times_invoked_emit emitter_0_listeners listeners_of_def emit_def emit_prune_def
      try_catch_def call_handler_def rereg_handlers_def once_on_def times_invoked_def emitter_0_def
      new_emitter_def)

text \<open>
  Claim C7. For every table of handlers, throwing ones included, \<^verbatim>\<open>emit\<close> returns to its
  caller without throwing, and it has invoked every listener of the snapshot, in order: a
  handler that throws stops none of the handlers after it (the loop body catches the error and
  logs it with \<^verbatim>\<open>console.error\<close>).
\<close>

theorem handler_isolation:
  "fst (emit H event d E) = Returns ()
   \<and> invoked (snd (emit H event d E)) =
       invoked E @ map (\<lambda>l. (handler l, event, d)) (listeners_of (listeners E) event)"
  by (simp add: emit_returns emit_invoked)

text \<open>
  Claim C10, as the code has it. When a kind has listeners, all of them once-listeners whose
  handlers leave the entry of the kind alone while they run, then after \<^verbatim>\<open>emit\<close> the kind has
  \<^verbatim>\<open>listenerCount\<close> 0 and is still among \<^verbatim>\<open>eventNames()\<close>: its entry is the empty list. A
  later \<^verbatim>\<open>off\<close> for the kind (with any handler) finds the list empty and deletes the entry,
  and so does \<^verbatim>\<open>removeAllListeners\<close> with the kind or with no argument. The entry stays under
  \<^verbatim>\<open>on\<close> and \<^verbatim>\<open>once\<close> (of any kind), under \<^verbatim>\<open>off\<close> and \<^verbatim>\<open>removeAllListeners\<close> for another
  kind, and under a further \<^verbatim>\<open>emit\<close> of the kind, which returns at once.
\<close>

theorem emptied_entry_stays:
  assumes "listeners_of (listeners E) event \<noteq> []"
    and "\<forall>l\<in>set (listeners_of (listeners E) event). once l"
    and "\<forall>l\<in>set (listeners_of (listeners E) event). leaves_kind H event (handler l)"
  shows "listenerCount event (listeners (snd (emit H event d E))) = 0
     \<and> event \<in> set (eventNames (listeners (snd (emit H event d E))))
     \<and> map_of (listeners (snd (emit H event d E))) event = Some []
     \<and> event \<notin> set (eventNames (off event h (listeners (snd (emit H event d E)))))
     \<and> event \<notin> set (eventNames (removeAllListeners (Some event) (listeners (snd (emit H event d E)))))
     \<and> event \<notin> set (eventNames (removeAllListeners None (listeners (snd (emit H event d E)))))
     \<and> event \<in> set (eventNames (on ev' h (listeners (snd (emit H event d E)))))
     \<and> event \<in> set (eventNames (once_on ev' h (listeners (snd (emit H event d E)))))
     \<and> (ev' \<noteq> event \<longrightarrow> event \<in> set (eventNames (off ev' h (listeners (snd (emit H event d E))))))
     \<and> (ev' \<noteq> event \<longrightarrow>
          event \<in> set (eventNames (removeAllListeners (Some ev') (listeners (snd (emit H event d E))))))
     \<and> emit H' event d' (snd (emit H event d E)) = (Returns (), snd (emit H event d E))"
proof -
  let ?reg = "listeners (snd (emit H event d E))"
  have entry: "map_of ?reg event = Some []"
    by (rule emit_emptied_entry [OF assms(3) assms(1) assms(2)])
  have 1: "listenerCount event ?reg = 0" using entry by (simp add: listenerCount_def)
  have 2: "event \<in> set (eventNames ?reg)" using entry by (simp add: in_eventNames)
  have 3: "event \<notin> set (eventNames (off event h ?reg))"
    using off_empty_entry [OF entry] by (simp add: in_eventNames)
  have 4: "event \<notin> set (eventNames (removeAllListeners (Some event) ?reg))"
    by (simp add: in_eventNames removeAllListeners_def delete_conv')
  have 5: "event \<notin> set (eventNames (removeAllListeners None ?reg))"
    by (simp add: eventNames_def removeAllListeners_def)
  have 6: "event \<in> set (eventNames (on ev' h ?reg))"
    using on_keeps [of ?reg event] entry by (simp add: in_eventNames)
  have 7: "event \<in> set (eventNames (once_on ev' h ?reg))"
    using once_on_keeps [of ?reg event] entry by (simp add: in_eventNames)
  have 8: "ev' \<noteq> event \<longrightarrow> event \<in> set (eventNames (off ev' h ?reg))"
    using entry by (simp add: in_eventNames off_other_keeps)
  have 9: "ev' \<noteq> event \<longrightarrow> event \<in> set (eventNames (removeAllListeners (Some ev') ?reg))"
    using entry by (simp add: in_eventNames removeAll_other_keeps)
  have 10: "emit H' event d' (snd (emit H event d E)) = (Returns (), snd (emit H event d E))"
    using entry by (simp add: emit_empty listeners_of_def)
  from 1 2 entry 3 4 5 6 7 8 9 10 show ?thesis by blast
qed

text \<open>
  The amended claim at a concrete emitter: handlers 7 and 8, both registered with \<^verbatim>\<open>once\<close>
  for \<^verbatim>\<open>initialization:complete\<close>; \<^verbatim>\<open>off\<close> and \<^verbatim>\<open>removeAllListeners\<close> for \<^verbatim>\<open>cache:used\<close> keep
  the emptied entry, \<^verbatim>\<open>off\<close> for \<^verbatim>\<open>initialization:complete\<close> deletes it.
\<close>

theorem emptied_entry_stays_witness:
  "listenerCount initialization_complete
      (listeners (snd (emit quiet_handlers initialization_complete 1 emitter_7_8))) = 0
   \<and> initialization_complete \<in> set (eventNames
      (listeners (snd (emit quiet_handlers initialization_complete 1 emitter_7_8))))
   \<and> initialization_complete \<notin> set (eventNames (off initialization_complete 9
      (listeners (snd (emit quiet_handlers initialization_complete 1 emitter_7_8)))))
   \<and> initialization_complete \<in> set (eventNames (off cache_used 9
      (listeners (snd (emit quiet_handlers initialization_complete 1 emitter_7_8)))))
   \<and> initialization_complete \<in> set (eventNames (removeAllListeners (Some cache_used)
      (listeners (snd (emit quiet_handlers initialization_complete 1 emitter_7_8)))))"
proof -
  have a: "listeners_of (listeners emitter_7_8) initialization_complete \<noteq> []"
    by (simp add: emitter_7_8_listeners listeners_of_def)
  have b: "\<forall>l\<in>set (listeners_of (listeners emitter_7_8) initialization_complete). once l"
    by (simp add: emitter_7_8_listeners listeners_of_def)
  have c: "\<forall>l\<in>set (listeners_of (listeners emitter_7_8) initialization_complete).
      leaves_kind quiet_handlers initialization_complete (handler l)"
    by (simp add: quiet_inert inert_leaves_kind)
  from emptied_entry_stays [OF a b c, of 1 9 cache_used quiet_handlers 1]
  show ?thesis by simp
qed

text \<open>
  Claim C10 as stated fails when a handler changes the entry of the kind while it runs. The
  only listener of the kind is a once-listener in both cases. A handler that registers itself
  again leaves \<^verbatim>\<open>listenerCount\<close> at 1 after the \<^verbatim>\<open>emit\<close>. A handler that calls \<^verbatim>\<open>off\<close> for the
  kind finds the list already emptied and deletes the entry, so that after the \<^verbatim>\<open>emit\<close> the
  kind is not among \<^verbatim>\<open>eventNames()\<close>, with no later \<^verbatim>\<open>off\<close> or \<^verbatim>\<open>removeAllListeners\<close>.
\<close>

theorem emptied_entry_counterexample:
  "listenerCount initialization_complete
      (listeners (snd (emit rereg_handlers initialization_complete 1 emitter_0))) = 1
   \<and> initialization_complete \<notin> set (eventNames
      (listeners (snd (emit unregistering_handlers initialization_complete 1 emitter_0))))"
  by (simp add: emitter_0_listeners emit_def emit_prune_def try_catch_def call_handler_def
      rereg_handlers_def unregistering_handlers_def once_on_def off_def listenerCount_def
      eventNames_def emitter_0_def new_emitter_def)

section \<open>Claims about the native cache\<close>




text \<open>
  Where the property list keeps whole seconds, the window starts at the whole second of the
  record: a success recorded at 2500 with \<^verbatim>\<open>ttl = 30000\<close> is stored as second 2, and a request
  at \<open>2500 + 30000 - 1\<close> is not answered from the cache, while one at \<open>2000 + 30000 - 1\<close> is.
\<close>

lemma whole_second_record_example:
  "\<not> cacheValid 30000 (2500 + 30000 - 1)
        (fst (snd (PromptTouchID approving_platform
           \<lparr>arg_reason = ''Unlock'', arg_method = cached, arg_ttl = Num 30000\<rparr> 1000
           (native_loaded None))))
   \<and> cacheValid 30000 (2000 + 30000 - 1)
        (fst (snd (PromptTouchID approving_platform
           \<lparr>arg_reason = ''Unlock'', arg_method = cached, arg_ttl = Num 30000\<rparr> 1000
           (native_loaded None))))"
proof -
  have f: "\<lfloor>5 / 2 :: rat\<rfloor> = 2"
    by (rule floor_unique) simp_all
  show ?thesis
    by (simp add: Int32Value_def cacheValid_def PromptTouchID_def checkCache_def loadCache_def
        updateCache_def saveCache_def native_loaded_def approving_platform_def seconds_def f)
qed

section \<open>Claims about the service\<close>

text \<open>
  Claim C1 fails on the code, by a slip of the code. When \<^verbatim>\<open>promptTouchID\<close> resolves with
  \<^verbatim>\<open>success: false\<close>, \<^verbatim>\<open>authenticate\<close> takes the \<^verbatim>\<open>else\<close> branch and emits
  \<^verbatim>\<open>authentication:failure\<close> with the provider's error, and then runs the one \<^verbatim>\<open>return\<close> of the
  \<^verbatim>\<open>try\<close> block, \<^verbatim>\<open>{ success: true, data: result.data }\<close>: the caller is told the
  authentication succeeded. (Lemma \<open>authenticate_try_resolves\<close> has the general form.)
\<close>

theorem declined_prompt_reports_success:
  "fst (authenticate no_handlers options_default (mac_service declining_provider ())) =
     Returns \<lparr>success = True, error = None, data = None\<rparr>
   \<and> new_events (mac_service declining_provider ())
        (snd (authenticate no_handlers options_default (mac_service declining_provider ()))) =
       [(authentication_start, AuthStart 10 direct ''Authenticate with Touch ID''),
        (authentication_failure, AuthFailure 2010 direct ''Authentication failed'' 2000)]"
  by (simp add: Let_def waitForInit_Initialized authenticate_def method_or_default_def
      reason_or_default_def ttl_or_default_def options_default_def mac_service_eq
      validateOptions_def authenticate_try_def declining_provider_def call_native_def
      bind_prog_def try_catch_def svc_emit_eq return_prog_def new_events_def)

text \<open>
  Claim C2 fails on the code. The service never emits \<^verbatim>\<open>cache:used\<close>; it emits
  \<^verbatim>\<open>cache:created\<close> after every successful request with \<^verbatim>\<open>method = 'cached'\<close>, and cannot
  tell a cache hit of the native module from a fresh prompt. Two requests with
  \<^verbatim>\<open>{ method: 'cached', ttl: 30000 }\<close>, 6500 ms apart, on the shipped module: the first one
  prompts and succeeds, the second one is answered from the cache (the validity check holds
  when it is made), and it emits \<^verbatim>\<open>authentication:start\<close>, \<^verbatim>\<open>cache:created\<close>,
  \<^verbatim>\<open>authentication:success\<close>.
\<close>

theorem cache_hit_emits_created:
  "fst (authenticate no_handlers options_cached_30000 shipped_service) =
     Returns \<lparr>success = True, error = None, data = Some some_device\<rparr>
   \<and> clock before_second_cached - clock shipped_service = 6500
   \<and> cacheValid 30000 (clock before_second_cached) (native before_second_cached)
   \<and> fst (authenticate no_handlers options_cached_30000 before_second_cached) =
       Returns \<lparr>success = True, error = None, data = Some some_device\<rparr>
   \<and> new_events before_second_cached
        (snd (authenticate no_handlers options_cached_30000 before_second_cached)) =
       [(authentication_start, AuthStart 6510 cached ''Authenticate with Touch ID''),
        (cache_created, CacheCreated 6510 (Num 30000)),
        (authentication_success, AuthSuccess 6510 cached 0 (Some some_device))]"
  by (simp add: before_second_cached_def after_first_cached_def first_cached_result)
     (simp add: Let_def waitForInit_Initialized authenticate_def method_or_default_def
         reason_or_default_def ttl_or_default_def options_cached_30000_def shipped_service_def
         mac_service_eq validateOptions_def authenticate_try_def touchid_native_def
         call_native_def bind_prog_def try_catch_def svc_emit_eq return_prog_def
         PromptTouchID_def loadCache_def checkCache_def cacheValid_def new_events_def
         seconds_def approving_platform_def Int32Value_def truthy_def js_less_def)




text \<open>
  Claim C4, as the code has it. In every state a constructed service can be in,
  \<^verbatim>\<open>isAvailable\<close> and \<^verbatim>\<open>getBiometricInfo\<close> return with initialization finished, and so does
  \<^verbatim>\<open>authenticate\<close> when the options are valid or the platform is not macOS (where the
  constructor has finished initialization already). On macOS a request with invalid options
  is answered before \<^verbatim>\<open>waitForInit\<close> is reached: it leaves initialization where it was.
\<close>

theorem results_wait_for_init:
  assumes "constructed st"
  shows "initialized (snd (isAvailable H st))
     \<and> initialized (snd (getBiometricInfo_op H st))
     \<and> (validateOptions options = Valid \<longrightarrow> initialized (snd (authenticate H options st)))
     \<and> (\<not> darwin st \<longrightarrow> initialized (snd (authenticate H options st)))
     \<and> (darwin st \<and> validateOptions options \<noteq> Valid \<longrightarrow>
          init (snd (authenticate H options st)) = init st)"
  using assms isAvailable_init [of H st] getBiometricInfo_init [of H st]
    authenticate_init [of H options st]
  by (auto simp: constructed_def initialized_def)

text \<open>
  The amended claim on a service whose addon is still loading.
\<close>

theorem results_wait_for_init_witness:
  "constructed (loading_service declining_provider ())
   \<and> \<not> initialized (loading_service declining_provider ())
   \<and> initialized (snd (isAvailable no_handlers (loading_service declining_provider ())))
   \<and> initialized (snd (authenticate no_handlers options_default
        (loading_service declining_provider ())))"
proof -
  have c: "constructed (loading_service declining_provider ())"
    by (simp add: constructed_def loading_service_eq)
  have n: "\<not> initialized (loading_service declining_provider ())"
    by (simp add: initialized_def loading_service_eq)
  have v: "validateOptions options_default = Valid"
    by (simp add: validateOptions_def options_default_def)
  from results_wait_for_init [OF c, of no_handlers options_default] c n v show ?thesis by simp
qed

text \<open>
  Claim C4 as stated fails: on macOS, with the addon still loading,
  \<^verbatim>\<open>authenticate({ ttl: 500 })\<close> returns its result while initialization has not finished.
\<close>

theorem early_result_counterexample:
  "fst (authenticate no_handlers options_ttl_500 (loading_service declining_provider ())) =
     Returns \<lparr>success = False,
              error = Some ''TTL must be between 1000 and 300000 milliseconds'', data = None\<rparr>
   \<and> \<not> initialized (snd (authenticate no_handlers options_ttl_500
                            (loading_service declining_provider ())))"
  by (simp add: Let_def waitForInit_Initialized authenticate_def method_or_default_def
      reason_or_default_def ttl_or_default_def options_ttl_500_def loading_service_eq
      validateOptions_def js_less_def return_prog_def initialized_def)

text \<open>
  Claim C5, as the code has it. For every table of handlers, every state, every native
  module and all options, \<^verbatim>\<open>isAvailable\<close>, \<^verbatim>\<open>authenticate\<close> and \<^verbatim>\<open>getBiometricInfo\<close> return
  a value and do not throw. When \<^verbatim>\<open>canPromptTouchID\<close> throws, \<^verbatim>\<open>isAvailable\<close> returns
  \<^verbatim>\<open>false\<close> and emits one \<^verbatim>\<open>device:unavailable\<close> event, whose reason is the message of the
  thrown value when that is an \<^verbatim>\<open>Error\<close>, and \<^verbatim>\<open>'Unknown error'\<close> when it is anything else.
\<close>

theorem public_operations_return:
  "(\<exists>b. fst (isAvailable H st) = Returns b)
   \<and> (\<exists>r. fst (authenticate H options st) = Returns r)
   \<and> (\<exists>i. fst (getBiometricInfo_op H st) = Returns i)
   \<and> (darwin st \<and> nativeModule (waitForInit H st) = Some m \<and> canPromptTouchID m = Some f
        \<and> f (clock (waitForInit H st)) (native (waitForInit H st)) = (Throws e, p', dt)
      \<longrightarrow> fst (isAvailable H st) = Returns False
        \<and> new_events (waitForInit H st) (snd (isAvailable H st)) =
            [(device_unavailable,
              DeviceUnavailable (clock (snd (isAvailable H st))) (message_or ''Unknown error'' e))])
   \<and> message_or ''Unknown error'' (JsError text) = text
   \<and> message_or ''Unknown error'' (JsOther text) = ''Unknown error''"
proof (intro conjI impI)
  show "\<exists>b. fst (isAvailable H st) = Returns b"
    using isAvailable_init [of H st] by (rule conjunct1)
  show "\<exists>r. fst (authenticate H options st) = Returns r"
    using authenticate_init [of H options st] by (rule conjunct1)
  show "\<exists>i. fst (getBiometricInfo_op H st) = Returns i"
    using getBiometricInfo_init [of H st] by (rule conjunct1)
  show "message_or ''Unknown error'' (JsError text) = text"
    by (simp add: message_or_def)
  show "message_or ''Unknown error'' (JsOther text) = ''Unknown error''"
    by (simp add: message_or_def)
next
  assume a: "darwin st \<and> nativeModule (waitForInit H st) = Some m \<and> canPromptTouchID m = Some f
        \<and> f (clock (waitForInit H st)) (native (waitForInit H st)) = (Throws e, p', dt)"
  then have d: "darwin st" and n: "nativeModule (waitForInit H st) = Some m"
    and c: "canPromptTouchID m = Some f"
    and t: "f (clock (waitForInit H st)) (native (waitForInit H st)) = (Throws e, p', dt)"
    by simp_all
  note call = isAvailable_call [OF d n c t]
  from call show "fst (isAvailable H st) = Returns False" by simp
  from call show "new_events (waitForInit H st) (snd (isAvailable H st)) =
            [(device_unavailable,
              DeviceUnavailable (clock (snd (isAvailable H st))) (message_or ''Unknown error'' e))]"
    by (simp add: new_events_def)
qed

text \<open>
  The amended claim for a module that throws \<^verbatim>\<open>new Error('LAContext failed')\<close>.
\<close>

theorem public_operations_return_witness:
  "fst (isAvailable no_handlers (mac_service error_throwing_provider ())) = Returns False
   \<and> new_events (mac_service error_throwing_provider ())
        (snd (isAvailable no_handlers (mac_service error_throwing_provider ()))) =
       [(device_unavailable, DeviceUnavailable 10 ''LAContext failed'')]"
proof -
  let ?st = "mac_service error_throwing_provider ()"
  have w: "waitForInit no_handlers ?st = ?st"
    by (simp add: waitForInit_Initialized mac_service_eq)
  have a: "darwin ?st \<and> nativeModule (waitForInit no_handlers ?st) = Some error_throwing_provider
      \<and> canPromptTouchID error_throwing_provider = Some (\<lambda>now p. (Throws (JsError ''LAContext failed''), p, 0))
      \<and> (\<lambda>now p. (Throws (JsError ''LAContext failed''), p, 0))
           (clock (waitForInit no_handlers ?st)) (native (waitForInit no_handlers ?st)) =
         (Throws (JsError ''LAContext failed''), (), 0)"
    by (simp add: w) (simp add: mac_service_eq error_throwing_provider_def)
  have c: "clock (snd (isAvailable no_handlers ?st)) = 10"
    by (simp add: Let_def waitForInit_Initialized isAvailable_def mac_service_eq
        error_throwing_provider_def call_native_def bind_prog_def try_catch_def svc_emit_eq
        return_prog_def)
  from public_operations_return [of no_handlers ?st options_default error_throwing_provider
      "\<lambda>now p. (Throws (JsError ''LAContext failed''), p, 0)" "JsError ''LAContext failed''" "()" 0
      "''LAContext failed''"] a
  show ?thesis by (simp add: w c)
qed

text \<open>
  Claim C5 as stated fails for a thrown value that is not an \<^verbatim>\<open>Error\<close>: when
  \<^verbatim>\<open>canPromptTouchID\<close> throws the string \<^verbatim>\<open>'boom'\<close>, the reason of the event is
  \<^verbatim>\<open>'Unknown error'\<close>.
\<close>

theorem thrown_string_counterexample:
  "fst (isAvailable no_handlers (mac_service string_throwing_provider ())) = Returns False
   \<and> new_events (mac_service string_throwing_provider ())
        (snd (isAvailable no_handlers (mac_service string_throwing_provider ()))) =
       [(device_unavailable, DeviceUnavailable 10 ''Unknown error'')]"
  by (simp add: Let_def waitForInit_Initialized isAvailable_def mac_service_eq
      string_throwing_provider_def call_native_def bind_prog_def try_catch_def svc_emit_eq
      return_prog_def new_events_def message_or_def)

text \<open>
  Values that are not an \<^verbatim>\<open>Error\<close> are what the shipped module rejects with: its
  \<^verbatim>\<open>promptTouchID\<close> rejects with a string, so \<^verbatim>\<open>authenticate\<close> returns \<^verbatim>\<open>'Unknown error'\<close>
  whatever the platform reported, and emits no \<^verbatim>\<open>authentication:cancel\<close>.
\<close>

lemma shipped_rejection_example:
  "fst (authenticate no_handlers options_direct
         (mac_service (touchid_native cancelling_platform some_info) (native_loaded None))) =
     Returns \<lparr>success = False, error = Some ''Unknown error'', data = None\<rparr>
   \<and> map fst (new_events
         (mac_service (touchid_native cancelling_platform some_info) (native_loaded None))
         (snd (authenticate no_handlers options_direct
            (mac_service (touchid_native cancelling_platform some_info) (native_loaded None))))) =
       [authentication_start, authentication_failure]"
  by (simp add: Let_def waitForInit_Initialized authenticate_def method_or_default_def
      reason_or_default_def ttl_or_default_def options_direct_def mac_service_eq
      validateOptions_def authenticate_try_def authenticate_catch_def touchid_native_def
      call_native_def bind_prog_def try_catch_def svc_emit_eq return_prog_def PromptTouchID_def
      loadCache_def checkCache_def native_loaded_def cancelling_platform_def message_or_def
      new_events_def)

text \<open>
  \<^verbatim>\<open>test\<close> is the operation that throws.
\<close>

lemma test_throws_example:
  "fst (test no_handlers (unloaded_service ())) =
     Throws (JsError ''Touch ID is not available on this device'')"
  by (simp add: test_def isAvailable_def unloaded_service_eq waitForInit_Initialized
      bind_prog_def svc_emit_eq return_prog_def throw_prog_def)

text \<open>
  Claim C9, as the code has it. A request with \<^verbatim>\<open>method = 'direct'\<close> (given or by default)
  emits no \<^verbatim>\<open>cache:*\<close> event, in any state. Off macOS, where \<^verbatim>\<open>isAvailable\<close> returns
  \<^verbatim>\<open>false\<close>, \<^verbatim>\<open>authenticate\<close> returns \<^verbatim>\<open>{ success: false, error: 'Touch ID not available' }\<close>.
  On macOS without a native module (the addon failed to load), where \<^verbatim>\<open>isAvailable\<close> returns
  \<^verbatim>\<open>false\<close> as well, a valid request returns the error
  \<^verbatim>\<open>'Touch ID native module not available'\<close>. In both cases no function of the native module
  is called. When the module is loaded, \<^verbatim>\<open>authenticate\<close> does not ask whether Touch ID is
  available: a valid request calls \<^verbatim>\<open>promptTouchID\<close>, and the result is what that call leads to.
\<close>

theorem unavailable_direct:
  "(method_or_default options = direct \<longrightarrow>
      list_all (\<lambda>e. \<not> is_cache_event (fst e)) (new_events st (snd (authenticate H options st))))
   \<and> (\<not> darwin st \<longrightarrow>
        fst (isAvailable H st) = Returns False
        \<and> fst (authenticate H options st) =
            Returns \<lparr>success = False, error = Some ''Touch ID not available'', data = None\<rparr>
        \<and> provider_calls (snd (authenticate H options st)) = provider_calls st)
   \<and> (darwin st \<and> module_after_init st = None \<and> validateOptions options = Valid \<longrightarrow>
        fst (isAvailable H st) = Returns False
        \<and> fst (authenticate H options st) =
            Returns \<lparr>success = False, error = Some ''Touch ID native module not available'',
                     data = None\<rparr>
        \<and> provider_calls (snd (authenticate H options st)) = provider_calls st)
   \<and> (darwin st \<and> module_after_init st = Some m \<and> promptTouchID m = Some f
        \<and> validateOptions options = Valid \<longrightarrow>
        provider_calls (snd (authenticate H options st)) =
          provider_calls st @
          [PromptCall \<lparr>arg_reason = reason_or_default options,
                       arg_method = method_or_default options,
                       arg_ttl = ttl_or_default options\<rparr>])"
proof (intro conjI impI)
  assume "darwin st \<and> module_after_init st = Some m \<and> promptTouchID m = Some f
        \<and> validateOptions options = Valid"
  then show "provider_calls (snd (authenticate H options st)) =
          provider_calls st @
          [PromptCall \<lparr>arg_reason = reason_or_default options,
                       arg_method = method_or_default options,
                       arg_ttl = ttl_or_default options\<rparr>]"
    by (intro authenticate_calls_provider [where m = m and f = f]) simp_all
next
  assume "method_or_default options = direct"
  then show "list_all (\<lambda>e. \<not> is_cache_event (fst e)) (new_events st (snd (authenticate H options st)))"
    by (intro new_events_no_cache authenticate_direct_no_cache)
next
  assume n: "\<not> darwin st"
  from isAvailable_other_platform [OF n, of H] show "fst (isAvailable H st) = Returns False"
    by simp
  from authenticate_other_platform [OF n, of H options]
  show "fst (authenticate H options st) =
            Returns \<lparr>success = False, error = Some ''Touch ID not available'', data = None\<rparr>"
    by (simp add: NOT_AVAILABLE_def)
  from authenticate_other_platform [OF n, of H options]
  show "provider_calls (snd (authenticate H options st)) = provider_calls st" by simp
next
  assume a: "darwin st \<and> module_after_init st = None \<and> validateOptions options = Valid"
  then have d: "darwin st" and m: "module_after_init st = None"
    and v: "validateOptions options = Valid" by simp_all
  from isAvailable_module_missing [OF d m, of H] show "fst (isAvailable H st) = Returns False"
    by simp
  from authenticate_module_missing [OF d v m, of H]
  show "fst (authenticate H options st) =
            Returns \<lparr>success = False, error = Some ''Touch ID native module not available'',
                     data = None\<rparr>"
    by simp
  from authenticate_module_missing [OF d v m, of H]
  show "provider_calls (snd (authenticate H options st)) = provider_calls st" by simp
qed

text \<open>
  The amended claim on another platform, and on macOS with the addon missing.
\<close>

theorem unavailable_direct_witness:
  "\<not> darwin (other_platform_service ())
   \<and> fst (isAvailable no_handlers (other_platform_service ())) = Returns False
   \<and> fst (authenticate no_handlers options_direct (other_platform_service ())) =
       Returns \<lparr>success = False, error = Some ''Touch ID not available'', data = None\<rparr>
   \<and> list_all (\<lambda>e. \<not> is_cache_event (fst e))
        (new_events (other_platform_service ())
           (snd (authenticate no_handlers options_direct (other_platform_service ()))))
   \<and> module_after_init (unloaded_service ()) = None
   \<and> fst (authenticate no_handlers options_direct (unloaded_service ())) =
       Returns \<lparr>success = False, error = Some ''Touch ID native module not available'',
                data = None\<rparr>"
proof -
  have a: "\<not> darwin (other_platform_service ())"
    by (simp add: other_platform_service_eq)
  have b: "method_or_default options_direct = direct"
    by (simp add: method_or_default_def options_direct_def)
  have c: "darwin (unloaded_service ()) \<and> module_after_init (unloaded_service ()) = None
      \<and> validateOptions options_direct = Valid"
    by (simp add: unloaded_service_eq module_after_init_def validateOptions_def options_direct_def)
  from unavailable_direct [of options_direct "other_platform_service ()" no_handlers] a b
    unavailable_direct [of options_direct "unloaded_service ()" no_handlers] c
  show ?thesis by simp
qed

text \<open>
  Claim C9 as stated fails on macOS when the addon failed to load: availability is false
  and the error of \<^verbatim>\<open>authenticate({ method: 'direct' })\<close> is not \<^verbatim>\<open>'Touch ID not available'\<close>.
\<close>

theorem module_missing_counterexample:
  "fst (isAvailable no_handlers (unloaded_service ())) = Returns False
   \<and> fst (authenticate no_handlers options_direct (unloaded_service ())) =
       Returns \<lparr>success = False, error = Some ''Touch ID native module not available'',
                data = None\<rparr>"
  by (simp add: Let_def waitForInit_Initialized isAvailable_def authenticate_def
      options_direct_def unloaded_service_eq validateOptions_def return_prog_def)

end
